theory Spec2Isabelle
  imports Main "HOL-Library.Word"
begin

section \<open>Data model\<close>

text \<open>
  The embedding follows \<^verbatim>\<open>blockchain/blockchain.go\<close>. That file is the only source
  file; the packages it imports (\<^verbatim>\<open>types\<close>, \<^verbatim>\<open>core/state\<close>, \<^verbatim>\<open>core/appstate\<close>,
  \<^verbatim>\<open>core/mempool\<close>, \<^verbatim>\<open>crypto\<close>, \<^verbatim>\<open>crypto/vrf\<close>, \<^verbatim>\<open>validation\<close>, the repository
  facade) are not. Their data types are modelled here from the way the source uses them
  and from the data model of the specification; their functions are either modelled
  from the specification (the account store, the repository facade, the accessors of a
  block) or taken as parameters (hashing, signature recovery, the VRF, transaction
  validation), collected in the record \<open>env\<close>.

  \<^verbatim>\<open>common.Hash\<close> and \<^verbatim>\<open>types.Seed\<close> are 32-byte arrays (the source assigns a
  \<^verbatim>\<open>[32]byte\<close> to \<^verbatim>\<open>ParentHash\<close> and converts a hash to a seed), compared with \<^verbatim>\<open>!=\<close>:
  a 256-bit word. An address is only ever compared and used as a key: a 160-bit word.
  Heights are \<^verbatim>\<open>uint64\<close>. Amounts, balances and fees are \<^verbatim>\<open>*big.Int\<close>, a signed
  unbounded integer: \<open>int\<close>. The unsigned integer type of an account nonce is declared
  in the absent package \<^verbatim>\<open>types\<close>; it is the type parameter \<open>'w\<close> below, and every
  function and theorem is stated for a word of any length.
\<close>

type_synonym bytes = "8 word list"
type_synonym hash = "256 word"
type_synonym seed = "256 word"
type_synonym address = "160 word"

text \<open>The errors the source creates with \<^verbatim>\<open>errors.New\<close>, by message, and the errors
  handed back by a collaborator.\<close>

datatype error =
    InvalidTxNonce
  | NotEnoughFunds
  | WrongStateRoot
  | HeightIsInvalid
  | ParentHashIsInvalid
  | SeedIsInvalid
  | TxHashIsInvalid
  | HashesAreNotEqual
  | CollaboratorError string

text \<open>A call returns a value, returns an error, or panics (a nil pointer dereference). A
  panic unwinds through every caller: none of the source's functions recovers.\<close>

datatype 'a result = Ok 'a | Err error | Panicked

text \<open>\<^verbatim>\<open>tx.Type\<close>: the three constants the source switches on, and any other value of the
  underlying integer type (the \<^verbatim>\<open>switch\<close> has no default case).\<close>

datatype TxType = ApprovingTx | SendTx | SendInviteTx | OtherTx nat

text \<open>\<^verbatim>\<open>tx.To\<close> is a pointer the source dereferences (\<^verbatim>\<open>*tx.To\<close>): an option. The
  other pointers the source follows (the body of a block, the transactions in its list,
  the amount of a transaction, the head of the chain) are taken to be set.\<close>

record 'w Transaction =
  AccountNonce :: 'w
  Type :: TxType
  To :: "address option"
  Amount :: int
  Signature :: bytes

record ProposedHeader =
  ParentHash :: hash
  Height :: "64 word"
  Time :: int
  ProposerPubKey :: bytes
  TxHash :: hash
  Coinbase :: address
  Root :: hash

record EmptyBlockHeader =
  EmptyParentHash :: hash
  EmptyHeight :: "64 word"
  EmptyRoot :: hash

text \<open>\<^verbatim>\<open>types.Header\<close> holds a pointer to a proposed header and a pointer to an empty-block
  header, exactly one of them set: a sum.\<close>

datatype Header = ProposedHeader ProposedHeader | EmptyBlockHeader EmptyBlockHeader

record 'w Block =
  Header :: Header
  Transactions :: "'w Transaction list"
  BlockSeed :: seed
  SeedProof :: bytes

record 'w Account =
  Balance :: int
  Nonce :: 'w
  Approved :: bool

type_synonym 'w accounts = "address \<Rightarrow> 'w Account"

text \<open>
  Modelled from the spec: the account store \<^verbatim>\<open>state.StateDB\<close> (package \<^verbatim>\<open>core/state\<close>) is
  not part of the source. The specification describes it as a mapping from address to
  balance, nonce and identity object with a speculative and a committed write mode, where
  "Precommit fixes a root without making it durable; Commit makes it durable and advances
  a version counter". A handle holds the account objects as mutated so far (\<open>live\<close>), the
  root fixed last (\<open>fixedRoot\<close>), the contents made durable last (\<open>saved\<close>) and the version
  counter. An address that was never written reads as the empty account.
\<close>

record 'w StateDB =
  live :: "'w accounts"
  fixedRoot :: hash
  saved :: "'w accounts"
  version :: nat

text \<open>\<^verbatim>\<open>appstate.AppState\<close>: the canonical state handle and the validators cache; of the
  cache only the calls of \<^verbatim>\<open>RefreshIfUpdated\<close> are recorded, latest first.\<close>

record 'w AppState =
  State :: "'w StateDB"
  ValidatorsCache :: "'w Transaction list list"

text \<open>Modelled from the spec: the repository facade (\<^verbatim>\<open>NewRepo\<close>, in a file that is not part
  of the source): blocks by hash, the head header, the canonical hash of a height.\<close>

record 'w repo =
  blocks :: "hash \<rightharpoonup> 'w Block"
  headHeader :: "Header option"
  canonical :: "64 word \<rightharpoonup> hash"

text \<open>The chain. \<^verbatim>\<open>Head\<close> is the head of an initialised chain (\<^verbatim>\<open>InitializeChain\<close> sets it
  before anything else runs). Of the mempool only the calls of \<^verbatim>\<open>ResetTo\<close> are recorded,
  latest first. The configuration and the logger have no part in what follows.\<close>

record 'w Blockchain =
  repo :: "'w repo"
  Head :: "'w Block"
  vrfSigner :: bytes
  pubKey :: bytes
  coinBaseAddress :: address
  txpool :: "'w Block list"
  appState :: "'w AppState"

text \<open>
  The functions of the absent packages that the source calls and whose results it only
  passes on or compares: parameters of the model.
  \<^item> \<open>Sender\<close>: \<^verbatim>\<open>types.Sender(tx)\<close>; the source drops its error.
  \<^item> \<open>StateRoot\<close>: the root hash the store computes of its contents.
  \<^item> \<open>BlockHash\<close>: \<^verbatim>\<open>block.Hash()\<close>.
  \<^item> \<open>Keccak256Hash\<close>, \<open>DeriveSha\<close>, \<open>FromECDSAPub\<close>, \<open>UnmarshalPubkey\<close>: package \<^verbatim>\<open>crypto\<close>
    and \<^verbatim>\<open>types\<close>.
  \<^item> \<open>ToBytes64\<close>, \<open>ToBytes8\<close>: \<^verbatim>\<open>common.ToBytes\<close> at \<^verbatim>\<open>uint64\<close> and \<^verbatim>\<open>uint8\<close>.
  \<^item> \<open>Evaluate\<close>: \<^verbatim>\<open>vrfSigner.Evaluate(m)\<close>, the VRF output and its proof under a key.
  \<^item> \<open>NewVRFVerifier\<close>, \<open>ProofToHash\<close>: the VRF verifier. \<^verbatim>\<open>ProofToHash\<close> returns a pair
    of a hash and an error, as Go functions do; both components are kept.
  \<^item> \<open>ValidateTx\<close>: \<^verbatim>\<open>validation.ValidateTx\<close>.
\<close>

record 'w env =
  Sender :: "'w Transaction \<Rightarrow> address"
  StateRoot :: "'w accounts \<Rightarrow> hash"
  BlockHash :: "'w Block \<Rightarrow> hash"
  Keccak256Hash :: "bytes \<Rightarrow> hash"
  DeriveSha :: "'w Transaction list \<Rightarrow> hash"
  ToBytes64 :: "64 word \<Rightarrow> bytes"
  ToBytes8 :: "8 word \<Rightarrow> bytes"
  FromECDSAPub :: "bytes \<Rightarrow> bytes"
  UnmarshalPubkey :: "bytes \<Rightarrow> error + bytes"
  NewVRFVerifier :: "bytes \<Rightarrow> error + bytes"
  ProofToHash :: "bytes \<Rightarrow> bytes \<Rightarrow> bytes \<Rightarrow> hash \<times> error option"
  Evaluate :: "bytes \<Rightarrow> bytes \<Rightarrow> hash \<times> bytes"
  ValidateTx :: "'w AppState \<Rightarrow> 'w Transaction \<Rightarrow> error option"

section \<open>The account store\<close>

text \<open>Modelled from the spec: the operations of \<^verbatim>\<open>state.StateDB\<close> that the source calls.
  Getters read the live objects; setters write them. \<^verbatim>\<open>SetBalance\<close> stores the given
  amount, \<^verbatim>\<open>AddBalance\<close> and \<^verbatim>\<open>SubBalance\<close> add to and subtract from the stored one.\<close>

definition GetNonce :: "'w StateDB \<Rightarrow> address \<Rightarrow> 'w" where
  "GetNonce s a = Nonce (live s a)"

definition SetNonce :: "'w StateDB \<Rightarrow> address \<Rightarrow> 'w \<Rightarrow> 'w StateDB" where
  "SetNonce s a n = s\<lparr>live := (live s)(a := (live s a)\<lparr>Nonce := n\<rparr>)\<rparr>"

definition GetBalance :: "'w StateDB \<Rightarrow> address \<Rightarrow> int" where
  "GetBalance s a = Balance (live s a)"

definition SetBalance :: "'w StateDB \<Rightarrow> address \<Rightarrow> int \<Rightarrow> 'w StateDB" where
  "SetBalance s a v = s\<lparr>live := (live s)(a := (live s a)\<lparr>Balance := v\<rparr>)\<rparr>"

definition AddBalance :: "'w StateDB \<Rightarrow> address \<Rightarrow> int \<Rightarrow> 'w StateDB" where
  "AddBalance s a v = s\<lparr>live := (live s)(a := (live s a)\<lparr>Balance := Balance (live s a) + v\<rparr>)\<rparr>"

definition SubBalance :: "'w StateDB \<Rightarrow> address \<Rightarrow> int \<Rightarrow> 'w StateDB" where
  "SubBalance s a v = s\<lparr>live := (live s)(a := (live s a)\<lparr>Balance := Balance (live s a) - v\<rparr>)\<rparr>"

text \<open>\<^verbatim>\<open>state.GetOrNewIdentityObject(sender).Approve()\<close>.\<close>

definition Approve :: "'w StateDB \<Rightarrow> address \<Rightarrow> 'w StateDB" where
  "Approve s a = s\<lparr>live := (live s)(a := (live s a)\<lparr>Approved := True\<rparr>)\<rparr>"

text \<open>\<^verbatim>\<open>Precommit\<close> fixes the root of the live contents; \<^verbatim>\<open>Root\<close> reads the root fixed
  last; \<^verbatim>\<open>Commit\<close> fixes the root, makes the live contents durable and advances the
  version; \<^verbatim>\<open>Reset\<close> discards everything that is not durable; \<^verbatim>\<open>NewForCheck\<close> opens a
  disposable handle on the durable contents.\<close>

definition Precommit :: "'w env \<Rightarrow> 'w StateDB \<Rightarrow> 'w StateDB" where
  "Precommit env s = s\<lparr>fixedRoot := StateRoot env (live s)\<rparr>"

definition StateDB_Root :: "'w StateDB \<Rightarrow> hash" where
  "StateDB_Root s = fixedRoot s"

definition Commit :: "'w env \<Rightarrow> 'w StateDB \<Rightarrow> 'w StateDB" where
  "Commit env s = (Precommit env s)\<lparr>saved := live s, version := version s + 1\<rparr>"

definition Reset :: "'w env \<Rightarrow> 'w StateDB \<Rightarrow> 'w StateDB" where
  "Reset env s = s\<lparr>live := saved s, fixedRoot := StateRoot env (saved s)\<rparr>"

definition NewForCheck :: "'w env \<Rightarrow> 'w StateDB \<Rightarrow> 'w StateDB" where
  "NewForCheck env s =
     \<lparr>live = saved s, fixedRoot = StateRoot env (saved s), saved = saved s, version = version s\<rparr>"

text \<open>A handle without pending mutations: its live contents and its fixed root are those
  made durable last.\<close>

definition clean :: "'w env \<Rightarrow> 'w StateDB \<Rightarrow> bool" where
  "clean env s = (live s = saved s \<and> fixedRoot s = StateRoot env (saved s))"

section \<open>Blocks\<close>

text \<open>Modelled from the spec: the accessors of package \<^verbatim>\<open>types\<close>, which read the header
  that is set.\<close>

definition IsEmpty :: "'w Block \<Rightarrow> bool" where
  "IsEmpty b = (case Header b of ProposedHeader h \<Rightarrow> False | EmptyBlockHeader e \<Rightarrow> True)"

definition Block_Height :: "'w Block \<Rightarrow> 64 word" where
  "Block_Height b = (case Header b of ProposedHeader h \<Rightarrow> Height h | EmptyBlockHeader e \<Rightarrow> EmptyHeight e)"

definition Block_Root :: "'w Block \<Rightarrow> hash" where
  "Block_Root b = (case Header b of ProposedHeader h \<Rightarrow> Root h | EmptyBlockHeader e \<Rightarrow> EmptyRoot e)"

definition Header_ParentHash :: "Header \<Rightarrow> hash" where
  "Header_ParentHash hdr = (case hdr of ProposedHeader h \<Rightarrow> ParentHash h | EmptyBlockHeader e \<Rightarrow> EmptyParentHash e)"

definition Block_Seed :: "'w Block \<Rightarrow> seed" where
  "Block_Seed b = BlockSeed b"

text \<open>\<^verbatim>\<open>len(block.Seed())\<close>: the length of a 32-byte array.\<close>

definition Seed_len :: "seed \<Rightarrow> nat" where
  "Seed_len s = 32"

text \<open>\<^verbatim>\<open>Bytes()\<close> of a hash or seed: its 32 bytes, the most significant first.\<close>

definition Hash_Bytes :: "hash \<Rightarrow> bytes" where
  "Hash_Bytes h = map (\<lambda>i. ucast (drop_bit (8 * i) h)) (rev [0..<32])"

text \<open>Modelled from the spec: the writes of the repository facade.\<close>

definition WriteBlock :: "'w env \<Rightarrow> 'w repo \<Rightarrow> 'w Block \<Rightarrow> 'w repo" where
  "WriteBlock env r b = r\<lparr>blocks := (blocks r)(BlockHash env b \<mapsto> b)\<rparr>"

definition WriteHead :: "'w repo \<Rightarrow> Header \<Rightarrow> 'w repo" where
  "WriteHead r h = r\<lparr>headHeader := Some h\<rparr>"

definition WriteCanonicalHash :: "'w repo \<Rightarrow> 64 word \<Rightarrow> hash \<Rightarrow> 'w repo" where
  "WriteCanonicalHash r height h = r\<lparr>canonical := (canonical r)(height \<mapsto> h)\<rparr>"

section \<open>The chain of \<^verbatim>\<open>blockchain.go\<close>\<close>

definition BlockReward :: int where
  "BlockReward = 5"

definition getTxFee :: "'w Transaction \<Rightarrow> int" where
  "getTxFee tx = 0"

definition SetCurrentHead :: "'w Blockchain \<Rightarrow> 'w Block \<Rightarrow> 'w Blockchain" where
  "SetCurrentHead chain block = chain\<lparr>Head := block\<rparr>"

text \<open>The state handle of the chain, \<^verbatim>\<open>chain.appState.State\<close>, and its replacement by an
  updated handle (the source mutates it in place, through the pointer).\<close>

definition chainState :: "'w Blockchain \<Rightarrow> 'w StateDB" where
  "chainState chain = State (appState chain)"

definition withState :: "'w Blockchain \<Rightarrow> 'w StateDB \<Rightarrow> 'w Blockchain" where
  "withState chain s = chain\<lparr>appState := (appState chain)\<lparr>State := s\<rparr>\<rparr>"

definition GetSeedData :: "'w env \<Rightarrow> 'w Blockchain \<Rightarrow> 'w Block \<Rightarrow> bytes" where
  "GetSeedData env chain proposalBlock =
     (let head = Head chain;
          result = Hash_Bytes (Block_Seed head);
          result = result @ ToBytes64 env (Block_Height proposalBlock);
          result = result @ Hash_Bytes (BlockHash env proposalBlock)
      in result)"

definition ProposerRole :: "8 word" where
  "ProposerRole = 1"

definition getProposerData :: "'w env \<Rightarrow> 'w Blockchain \<Rightarrow> bytes" where
  "getProposerData env chain =
     (let head = Head chain;
          result = Hash_Bytes (Block_Seed head);
          result = result @ ToBytes8 env ProposerRole;
          result = result @ ToBytes64 env (Block_Height head + 1)
      in result)"

text \<open>\<^verbatim>\<open>GenerateEmptyBlock\<close>: the seed of the block is the Keccak-256 hash of the seed data
  of the block built so far, whose own seed is still the zero value.\<close>

definition GenerateEmptyBlock :: "'w env \<Rightarrow> 'w Blockchain \<Rightarrow> 'w Block" where
  "GenerateEmptyBlock env chain =
     (let head = Head chain;
          block = \<lparr>Header = EmptyBlockHeader
                      \<lparr>EmptyParentHash = BlockHash env head,
                       EmptyHeight = Block_Height head + 1,
                       EmptyRoot = StateDB_Root (chainState chain)\<rparr>,
                   Transactions = [],
                   BlockSeed = 0,
                   SeedProof = []\<rparr>
      in block\<lparr>BlockSeed := Keccak256Hash env (GetSeedData env chain block)\<rparr>)"

definition validateBlockParentHash :: "'w env \<Rightarrow> 'w Blockchain \<Rightarrow> 'w Block \<Rightarrow> error option" where
  "validateBlockParentHash env chain block =
     (let head = Head chain
      in if Block_Height head \<noteq> Block_Height block - 1 then Some HeightIsInvalid
         else if BlockHash env head \<noteq> Header_ParentHash (Header block) then Some ParentHashIsInvalid
         else None)"

definition insertBlock :: "'w env \<Rightarrow> 'w Blockchain \<Rightarrow> 'w Block \<Rightarrow> 'w Blockchain" where
  "insertBlock env chain block =
     (let r = WriteBlock env (repo chain) block;
          r = WriteHead r (Header block);
          r = WriteCanonicalHash r (Block_Height block) (BlockHash env block)
      in SetCurrentHead (chain\<lparr>repo := r\<rparr>) block)"

subsection \<open>The state transition\<close>

text \<open>The \<^verbatim>\<open>switch tx.Type\<close> of \<^verbatim>\<open>processTxs\<close>. The recipient pointer is dereferenced
  after the two debits of the sender.\<close>

definition applyTxType ::
  "'w StateDB \<Rightarrow> address \<Rightarrow> 'w Transaction \<Rightarrow> int \<Rightarrow> int result \<times> 'w StateDB" where
  "applyTxType s sender tx totalFee =
     (case Type tx of
        ApprovingTx \<Rightarrow> (Ok totalFee, Approve s sender)
      | SendTx \<Rightarrow>
          (let fee = getTxFee tx;
               balance = GetBalance s sender;
               amount = Amount tx;
               change = (balance - amount) - fee
           in if change < 0 then (Err NotEnoughFunds, s)
              else
                (let s1 = SubBalance s sender amount;
                     s2 = SubBalance s1 sender fee
                 in case To tx of
                      None \<Rightarrow> (Panicked, s2)
                    | Some recipient \<Rightarrow> (Ok (totalFee + fee), AddBalance s2 recipient amount)))
      | SendInviteTx \<Rightarrow> (Ok totalFee, s)
      | OtherTx k \<Rightarrow> (Ok totalFee, s))"

text \<open>One round of the loop of \<^verbatim>\<open>processTxs\<close>: the nonce check, the switch, the new
  nonce.\<close>

definition processTx ::
  "('n::len) word env \<Rightarrow> 'n word StateDB \<Rightarrow> 'n word Transaction \<Rightarrow> int \<Rightarrow> int result \<times> 'n word StateDB" where
  "processTx env s tx totalFee =
     (let sender = Sender env tx;
          expected = GetNonce s sender + 1
      in if expected \<noteq> AccountNonce tx then (Err InvalidTxNonce, s)
         else
           (case applyTxType s sender tx totalFee of
              (Ok totalFee', s') \<Rightarrow> (Ok totalFee', SetNonce s' sender (AccountNonce tx + 1))
            | (Err e, s') \<Rightarrow> (Err e, s')
            | (Panicked, s') \<Rightarrow> (Panicked, s')))"

text \<open>The loop over \<^verbatim>\<open>block.Body.Transactions\<close>, with the fee total as its accumulator.\<close>

fun processTxs_loop ::
  "('n::len) word env \<Rightarrow> 'n word StateDB \<Rightarrow> 'n word Transaction list \<Rightarrow> int \<Rightarrow> int result \<times> 'n word StateDB" where
  "processTxs_loop env s [] totalFee = (Ok totalFee, s)"
| "processTxs_loop env s (tx # txs) totalFee =
     (case processTx env s tx totalFee of
        (Ok totalFee', s') \<Rightarrow> processTxs_loop env s' txs totalFee'
      | (Err e, s') \<Rightarrow> (Err e, s')
      | (Panicked, s') \<Rightarrow> (Panicked, s'))"

definition processTxs ::
  "('n::len) word env \<Rightarrow> 'n word StateDB \<Rightarrow> 'n word Block \<Rightarrow> bool \<Rightarrow> int result \<times> 'n word StateDB" where
  "processTxs env s block proposing = processTxs_loop env s (Transactions block) 0"

text \<open>\<^verbatim>\<open>applyAndValidateBlockState\<close>. \<^verbatim>\<open>big.Int.Div\<close> is Euclidean division, which for the
  divisor 2 is \<open>div\<close>. Reading \<^verbatim>\<open>block.Header.ProposedHeader.Coinbase\<close> panics when the
  proposed header is not set.\<close>

definition applyAndValidateBlockState ::
  "('n::len) word env \<Rightarrow> 'n word StateDB \<Rightarrow> 'n word Block \<Rightarrow> bool \<Rightarrow> unit result \<times> 'n word StateDB" where
  "applyAndValidateBlockState env s block proposing =
     (case processTxs env s block proposing of
        (Err e, s1) \<Rightarrow> (Err e, s1)
      | (Panicked, s1) \<Rightarrow> (Panicked, s1)
      | (Ok totalFee, s1) \<Rightarrow>
          (let feeReward = totalFee div 2
           in case Header block of
                EmptyBlockHeader e \<Rightarrow> (Panicked, s1)
              | ProposedHeader h \<Rightarrow>
                  (let s2 = SetBalance s1 (Coinbase h) BlockReward;
                       s3 = SetBalance s2 (Coinbase h) feeReward;
                       s4 = Precommit env s3;
                       actualRoot = StateDB_Root s4
                   in if \<not> proposing \<and> actualRoot \<noteq> Block_Root block
                      then (Err WrongStateRoot, s4)
                      else (Ok (), s4))))"

text \<open>\<^verbatim>\<open>applyBlock\<close>. It returns the handle it was given and the chain, whose mempool and
  validators cache it touches when it is not proposing.\<close>

definition applyBlock ::
  "('n::len) word env \<Rightarrow> 'n word Blockchain \<Rightarrow> 'n word StateDB \<Rightarrow> 'n word Block \<Rightarrow> bool
     \<Rightarrow> unit result \<times> 'n word StateDB \<times> 'n word Blockchain" where
  "applyBlock env chain s block proposing =
     (case (if \<not> IsEmpty block then applyAndValidateBlockState env s block proposing
            else (Ok (), s)) of
        (Err e, s1) \<Rightarrow> (Err e, Reset env s1, chain)
      | (Panicked, s1) \<Rightarrow> (Panicked, s1, chain)
      | (Ok u, s1) \<Rightarrow>
          (if \<not> proposing
           then (Ok (), Commit env s1,
                 chain\<lparr>txpool := block # txpool chain,
                       appState := (appState chain)
                         \<lparr>ValidatorsCache := Transactions block # ValidatorsCache (appState chain)\<rparr>\<rparr>)
           else (Ok (), s1, chain)))"

subsection \<open>Validation\<close>

text \<open>The loop of \<^verbatim>\<open>ValidateProposedBlock\<close> over the transactions.\<close>

fun validateTxs :: "'w env \<Rightarrow> 'w AppState \<Rightarrow> 'w Transaction list \<Rightarrow> unit result" where
  "validateTxs env st [] = Ok ()"
| "validateTxs env st (tx # txs) =
     (case ValidateTx env st tx of
        Some e \<Rightarrow> Err e
      | None \<Rightarrow> validateTxs env st txs)"

definition ValidateProposedBlock :: "'w env \<Rightarrow> 'w Blockchain \<Rightarrow> 'w Block \<Rightarrow> unit result" where
  "ValidateProposedBlock env chain block =
     (case validateBlockParentHash env chain block of
        Some e \<Rightarrow> Err e
      | None \<Rightarrow>
          (let seedData = GetSeedData env chain block
           in case Header block of
                EmptyBlockHeader e \<Rightarrow> Panicked
              | ProposedHeader h \<Rightarrow>
                  (case UnmarshalPubkey env (ProposerPubKey h) of
                     Inl e \<Rightarrow> Err e
                   | Inr pk \<Rightarrow>
                       (case NewVRFVerifier env pk of
                          Inl e \<Rightarrow> Err e
                        | Inr verifier \<Rightarrow>
                            (case ProofToHash env verifier seedData (SeedProof block) of
                               (hash, Some e) \<Rightarrow> Err e
                             | (hash, None) \<Rightarrow>
                                 if hash \<noteq> Block_Seed block \<or> Seed_len (Block_Seed block) = 0
                                 then Err SeedIsInvalid
                                 else if DeriveSha env (Transactions block) \<noteq> TxHash h
                                 then Err TxHashIsInvalid
                                 else validateTxs env (appState chain) (Transactions block))))))"

text \<open>\<^verbatim>\<open>ValidateProposerProof\<close>: the error of \<^verbatim>\<open>ProofToHash\<close> is assigned and never read.\<close>

definition ValidateProposerProof ::
  "'w env \<Rightarrow> 'w Blockchain \<Rightarrow> bytes \<Rightarrow> hash \<Rightarrow> bytes \<Rightarrow> error option" where
  "ValidateProposerProof env chain proof hash pubKeyData =
     (case UnmarshalPubkey env pubKeyData of
        Inl e \<Rightarrow> Some e
      | Inr pk \<Rightarrow>
          (case NewVRFVerifier env pk of
             Inl e \<Rightarrow> Some e
           | Inr verifier \<Rightarrow>
               (case ProofToHash env verifier (getProposerData env chain) proof of
                  (h, err) \<Rightarrow> if h \<noteq> hash then Some HashesAreNotEqual else None)))"

subsection \<open>Adding and proposing blocks\<close>

definition AddBlock ::
  "('n::len) word env \<Rightarrow> 'n word Blockchain \<Rightarrow> 'n word Block \<Rightarrow> unit result \<times> 'n word Blockchain" where
  "AddBlock env chain block =
     (case validateBlockParentHash env chain block of
        Some e \<Rightarrow> (Err e, chain)
      | None \<Rightarrow>
          if IsEmpty block
          then (case applyBlock env chain (chainState chain) block False of
                  (Err e, s, chain') \<Rightarrow> (Err e, withState chain' s)
                | (Panicked, s, chain') \<Rightarrow> (Panicked, withState chain' s)
                | (Ok u, s, chain') \<Rightarrow>
                    (let chain'' = withState chain' s
                     in (Ok (), insertBlock env chain'' (GenerateEmptyBlock env chain''))))
          else (case ValidateProposedBlock env chain block of
                  Err e \<Rightarrow> (Err e, chain)
                | Panicked \<Rightarrow> (Panicked, chain)
                | Ok u \<Rightarrow>
                    (case applyBlock env chain (chainState chain) block False of
                       (Err e, s, chain') \<Rightarrow> (Err e, withState chain' s)
                     | (Panicked, s, chain') \<Rightarrow> (Panicked, withState chain' s)
                     | (Ok u, s, chain') \<Rightarrow> (Ok (), insertBlock env (withState chain' s) block))))"

text \<open>\<^verbatim>\<open>ProposeBlock\<close>. The transactions the mempool hands out
  (\<^verbatim>\<open>BuildBlockTransactions\<close>) and the clock (\<^verbatim>\<open>time.Now\<close>) are arguments. The two
  arguments of the source, the proposer's hash and proof, are not used by its body. The
  check state is dropped when the function returns.\<close>

definition ProposeBlock ::
  "('n::len) word env \<Rightarrow> 'n word Blockchain \<Rightarrow> 'n word Transaction list \<Rightarrow> int \<Rightarrow> 'n word Block result" where
  "ProposeBlock env chain txs now =
     (let head = Head chain;
          header = \<lparr>ParentHash = BlockHash env head,
                    Height = Block_Height head + 1,
                    Time = now,
                    ProposerPubKey = FromECDSAPub env (pubKey chain),
                    TxHash = DeriveSha env txs,
                    Coinbase = coinBaseAddress chain,
                    Root = 0\<rparr>;
          block = \<lparr>Header = ProposedHeader header, Transactions = txs, BlockSeed = 0, SeedProof = []\<rparr>;
          checkState = NewForCheck env (chainState chain)
      in case applyBlock env chain checkState block True of
           (Err e, s, chain') \<Rightarrow> Err e
         | (Panicked, s, chain') \<Rightarrow> Panicked
         | (Ok u, s, chain') \<Rightarrow>
             (let block = block\<lparr>Header := ProposedHeader (header\<lparr>Root := StateDB_Root s\<rparr>)\<rparr>;
                  (seed, proof) = Evaluate env (vrfSigner chain) (GetSeedData env chain block)
              in Ok (block\<lparr>BlockSeed := seed, SeedProof := proof\<rparr>)))"

section \<open>Refinement: the seed of an empty block as the specification words it\<close>

text \<open>The specification says of an empty block: "seed re-derived exactly as for a proposed
  block". A proposed block's seed is the VRF output of the chain's signer over the seed
  data of the block (\<^verbatim>\<open>ProposeBlock\<close>); \<open>spec_EmptyBlockSeed\<close> derives the seed of the
  empty block in that way, over the seed data \<^verbatim>\<open>GenerateEmptyBlock\<close> uses.\<close>

definition spec_EmptyBlockSeed :: "'w env \<Rightarrow> 'w Blockchain \<Rightarrow> seed" where
  "spec_EmptyBlockSeed env chain =
     fst (Evaluate env (vrfSigner chain)
            (GetSeedData env chain ((GenerateEmptyBlock env chain)\<lparr>BlockSeed := 0\<rparr>)))"

section \<open>Concrete instances\<close>

text \<open>A small instance of the parameters, with 64-bit nonces, on which the definitions
  above evaluate. The sender of a transaction is read off the first byte of its
  signature; the state root reads the balances of addresses 1 and 2 and the nonce of
  address 1; the VRF output depends on the key and the message, and its proof is accepted
  exactly when it is the key; the Keccak hash depends on the message alone.\<close>

definition exampleEnv :: "64 word env" where
  "exampleEnv =
     \<lparr>Sender = (\<lambda>tx. case Signature tx of [] \<Rightarrow> 0 | b # bs \<Rightarrow> ucast b),
      StateRoot = (\<lambda>accs. word_of_int (Balance (accs 1)) + 1000 * word_of_int (Balance (accs 2))
                     + 1000000 * ucast (Nonce (accs 1))),
      BlockHash = (\<lambda>b. ucast (Block_Height b) + 1000 * Block_Root b),
      Keccak256Hash = (\<lambda>m. of_nat (length m)),
      DeriveSha = (\<lambda>txs. of_nat (length txs)),
      ToBytes64 = (\<lambda>h. [ucast h]),
      ToBytes8 = (\<lambda>r. [r]),
      FromECDSAPub = (\<lambda>k. k),
      UnmarshalPubkey = (\<lambda>bs. if bs = [] then Inl (CollaboratorError ''invalid public key'') else Inr bs),
      NewVRFVerifier = (\<lambda>k. Inr k),
      ProofToHash = (\<lambda>v m p. if p = v then (of_nat (length v) + of_nat (length m), None)
                               else (0, Some (CollaboratorError ''invalid VRF proof''))),
      Evaluate = (\<lambda>k m. (of_nat (length k) + of_nat (length m), k)),
      ValidateTx = (\<lambda>st tx. None)\<rparr>"

text \<open>Address 1 holds 10, the coinbase address 3 holds 7; the handle is clean, at version 1.\<close>

definition exampleAccounts :: "64 word accounts" where
  "exampleAccounts =
     (\<lambda>a. \<lparr>Balance = 0, Nonce = 0, Approved = False\<rparr>)
       (1 := \<lparr>Balance = 10, Nonce = 0, Approved = False\<rparr>,
        3 := \<lparr>Balance = 7, Nonce = 0, Approved = False\<rparr>)"

definition exampleState :: "64 word StateDB" where
  "exampleState = \<lparr>live = exampleAccounts, fixedRoot = 10, saved = exampleAccounts, version = 1\<rparr>"

definition exampleHead :: "64 word Block" where
  "exampleHead =
     \<lparr>Header = ProposedHeader \<lparr>ParentHash = 0, Height = 1, Time = 0, ProposerPubKey = [],
                                TxHash = 0, Coinbase = 0, Root = 10\<rparr>,
      Transactions = [], BlockSeed = 7, SeedProof = []\<rparr>"

definition exampleChain :: "64 word Blockchain" where
  "exampleChain =
     \<lparr>repo = \<lparr>blocks = Map.empty, headHeader = None, canonical = Map.empty\<rparr>,
      Head = exampleHead, vrfSigner = [1], pubKey = [1], coinBaseAddress = 3, txpool = [],
      appState = \<lparr>State = exampleState, ValidatorsCache = []\<rparr>\<rparr>"

text \<open>Transactions of address 1: a transfer of its whole balance to address 2, the same
  transfer to itself, an approval, and two transfers with a wrong nonce (the stored nonce
  itself, and one that leaves a gap).\<close>

definition exampleSend :: "64 word Transaction" where
  "exampleSend = \<lparr>AccountNonce = 1, Type = SendTx, To = Some 2, Amount = 10, Signature = [1]\<rparr>"

definition selfSend :: "64 word Transaction" where
  "selfSend = \<lparr>AccountNonce = 1, Type = SendTx, To = Some 1, Amount = 10, Signature = [1]\<rparr>"

definition exampleApproval :: "64 word Transaction" where
  "exampleApproval = \<lparr>AccountNonce = 1, Type = ApprovingTx, To = None, Amount = 0, Signature = [1]\<rparr>"

definition replayedSend :: "64 word Transaction" where
  "replayedSend = \<lparr>AccountNonce = 0, Type = SendTx, To = Some 2, Amount = 1, Signature = [1]\<rparr>"

definition gapSend :: "64 word Transaction" where
  "gapSend = \<lparr>AccountNonce = 5, Type = SendTx, To = Some 2, Amount = 1, Signature = [1]\<rparr>"

text \<open>A transfer of address 1 with the nonce that is expected after one applied
  transaction (stored nonce 2), for more than address 1 holds.\<close>

definition overdrawnSend :: "64 word Transaction" where
  "overdrawnSend = \<lparr>AccountNonce = 3, Type = SendTx, To = Some 2, Amount = 11, Signature = [1]\<rparr>"

text \<open>The block \<^verbatim>\<open>ProposeBlock\<close> builds on the example chain from a list of transactions at
  time 99, with a given claimed root.\<close>

definition exampleBlock :: "64 word Transaction list \<Rightarrow> hash \<Rightarrow> 64 word Block" where
  "exampleBlock txs r =
     \<lparr>Header = ProposedHeader \<lparr>ParentHash = 10001, Height = 2, Time = 99, ProposerPubKey = [1],
                                TxHash = of_nat (length txs), Coinbase = 3, Root = r\<rparr>,
      Transactions = txs, BlockSeed = 66, SeedProof = [1]\<rparr>"

text \<open>An empty block on the example head whose root and seed are not the ones this node
  computes.\<close>

definition foreignEmptyBlock :: "64 word Block" where
  "foreignEmptyBlock =
     \<lparr>Header = EmptyBlockHeader \<lparr>EmptyParentHash = 10001, EmptyHeight = 2, EmptyRoot = 12345\<rparr>,
      Transactions = [], BlockSeed = 1, SeedProof = []\<rparr>"

text \<open>The example handle with a pending, uncommitted credit of 50 to address 2.\<close>

definition dirtyState :: "64 word StateDB" where
  "dirtyState = AddBalance exampleState 2 50"

section \<open>Facts about the account store\<close>

lemmas store_defs =
  GetNonce_def SetNonce_def GetBalance_def SetBalance_def AddBalance_def SubBalance_def
  Approve_def

lemma GetNonce_SetNonce: "GetNonce (SetNonce s a n) a = n"
  by (simp add: GetNonce_def SetNonce_def)

lemma Reset_clean: "clean env s \<Longrightarrow> Reset env s = s"
  by (simp add: clean_def Reset_def)

lemma Reset_eqI:
  assumes "saved s' = saved s" and "version s' = version s"
  shows "Reset env s' = Reset env s"
  using assms by (intro StateDB.equality) (simp_all add: Reset_def)

lemma clean_Commit: "clean env (Commit env s)"
  by (simp add: clean_def Commit_def Precommit_def)

lemma clean_Reset: "clean env (Reset env s)"
  by (simp add: clean_def Reset_def)

lemma clean_NewForCheck: "clean env (NewForCheck env s)"
  by (simp add: clean_def NewForCheck_def)

lemma length_Hash_Bytes: "length (Hash_Bytes h) = 32"
  by (simp add: Hash_Bytes_def)

section \<open>Facts about one transaction\<close>

lemma processTx_bad_nonce:
  "AccountNonce tx \<noteq> GetNonce s (Sender env tx) + 1 \<Longrightarrow>
     processTx env s tx f = (Err InvalidTxNonce, s)"
  by (auto simp: processTx_def Let_def)

lemma processTx_Ok:
  assumes "processTx env s tx totalFee = (Ok fee', s')"
  shows "AccountNonce tx = GetNonce s (Sender env tx) + 1
     \<and> (\<exists>s1. applyTxType s (Sender env tx) tx totalFee = (Ok fee', s1)
           \<and> s' = SetNonce s1 (Sender env tx) (AccountNonce tx + 1))"
  using assms
  by (auto simp: processTx_def Let_def split: if_splits prod.splits result.splits)

lemma applyTxType_fee: "applyTxType s a tx f = (Ok f', s') \<Longrightarrow> f' = f"
  by (auto simp: applyTxType_def Let_def getTxFee_def
      split: if_splits TxType.splits option.splits)

lemma applyTxType_frame:
  "applyTxType s a tx f = (r, s') \<Longrightarrow>
     saved s' = saved s \<and> version s' = version s \<and> fixedRoot s' = fixedRoot s"
  by (auto simp: applyTxType_def Let_def Approve_def SubBalance_def AddBalance_def
      split: if_splits TxType.splits option.splits)

lemma processTx_fee: "processTx env s tx f = (Ok f', s') \<Longrightarrow> f' = f"
  using processTx_Ok applyTxType_fee by blast

lemma processTx_frame:
  assumes "processTx env s tx f = (r, s')"
  shows "saved s' = saved s \<and> version s' = version s \<and> fixedRoot s' = fixedRoot s"
proof (cases "GetNonce s (Sender env tx) + 1 \<noteq> AccountNonce tx")
  case True
  with assms show ?thesis by (simp add: processTx_def Let_def)
next
  case False
  obtain r1 s1 where a: "applyTxType s (Sender env tx) tx f = (r1, s1)"
    by (cases "applyTxType s (Sender env tx) tx f")
  from applyTxType_frame [OF a] assms False a show ?thesis
    by (cases r1) (auto simp: processTx_def Let_def SetNonce_def)
qed

section \<open>Facts about the loop\<close>

lemma processTxs_loop_append:
  "processTxs_loop env s (xs @ ys) f =
     (case processTxs_loop env s xs f of
        (Ok f', s') \<Rightarrow> processTxs_loop env s' ys f'
      | (Err e, s') \<Rightarrow> (Err e, s')
      | (Panicked, s') \<Rightarrow> (Panicked, s'))"
  by (induction xs arbitrary: s f) (auto split: prod.splits result.splits)

lemma processTxs_loop_fee: "processTxs_loop env s txs f = (Ok f', s') \<Longrightarrow> f' = f"
  by (induction txs arbitrary: s f) (auto split: prod.splits result.splits dest: processTx_fee)

lemma processTxs_loop_frame:
  "processTxs_loop env s txs f = (r, s') \<Longrightarrow>
     saved s' = saved s \<and> version s' = version s \<and> fixedRoot s' = fixedRoot s"
proof (induction txs arbitrary: s f)
  case Nil
  then show ?case by simp
next
  case (Cons tx txs)
  obtain r1 s1 where p: "processTx env s tx f = (r1, s1)"
    by (cases "processTx env s tx f")
  note fr = processTx_frame [OF p]
  show ?case
  proof (cases r1)
    case (Ok f1)
    with Cons.prems p have "processTxs_loop env s1 txs f1 = (r, s')" by simp
    from Cons.IH [OF this] fr show ?thesis by simp
  next
    case (Err e)
    with Cons.prems p fr show ?thesis by auto
  next
    case Panicked
    with Cons.prems p fr show ?thesis by auto
  qed
qed

section \<open>Facts about the application of a block\<close>

lemma applyAndValidateBlockState_frame:
  assumes "applyAndValidateBlockState env s block proposing = (r, s')"
  shows "saved s' = saved s \<and> version s' = version s"
proof -
  obtain r1 s1 where p: "processTxs_loop env s (Transactions block) 0 = (r1, s1)"
    by (cases "processTxs_loop env s (Transactions block) 0")
  note fr = processTxs_loop_frame [OF p]
  from assms p fr show ?thesis
    by (cases r1; cases "Header block")
       (auto simp: applyAndValidateBlockState_def processTxs_def Let_def SetBalance_def
          Precommit_def split: if_splits)
qed

lemma applyBlock_Err:
  assumes "applyBlock env chain s block proposing = (Err e, s', chain')"
  shows "\<not> IsEmpty block \<and> chain' = chain
     \<and> (\<exists>s1. applyAndValidateBlockState env s block proposing = (Err e, s1) \<and> s' = Reset env s1)"
proof -
  obtain r1 s1 where a: "applyAndValidateBlockState env s block proposing = (r1, s1)"
    by (cases "applyAndValidateBlockState env s block proposing")
  from assms a show ?thesis
    by (cases r1) (auto simp: applyBlock_def split: if_splits)
qed

lemma applyBlock_of_Err:
  assumes "\<not> IsEmpty block"
    and "applyAndValidateBlockState env s block proposing = (Err e, s1)"
  shows "applyBlock env chain s block proposing = (Err e, Reset env s, chain)"
proof -
  from applyAndValidateBlockState_frame [OF assms(2)]
  have "Reset env s1 = Reset env s" by (intro Reset_eqI) simp_all
  with assms show ?thesis by (simp add: applyBlock_def)
qed

lemma applyBlock_frame:
  assumes "applyBlock env chain s block proposing = (r, s', chain')"
  shows "Head chain' = Head chain \<and> repo chain' = repo chain"
proof -
  obtain r1 s1 where a: "(if \<not> IsEmpty block then applyAndValidateBlockState env s block proposing
            else (Ok (), s)) = (r1, s1)"
    by (cases "(if \<not> IsEmpty block then applyAndValidateBlockState env s block proposing
            else (Ok (), s))")
  from assms show ?thesis
    unfolding applyBlock_def a by (cases r1) (auto split: if_splits)
qed

lemma applyBlock_clean:
  assumes "applyBlock env chain s block False = (r, s', chain')" and "r \<noteq> Panicked"
  shows "clean env s'"
proof -
  obtain r1 s1 where a: "(if \<not> IsEmpty block then applyAndValidateBlockState env s block False
            else (Ok (), s)) = (r1, s1)"
    by (cases "(if \<not> IsEmpty block then applyAndValidateBlockState env s block False
            else (Ok (), s))")
  from assms show ?thesis
    unfolding applyBlock_def a by (cases r1) (auto simp: clean_Commit clean_Reset)
qed

section \<open>Facts about validation and \<open>AddBlock\<close>\<close>

lemma validateTxs_not_Panicked: "validateTxs env st txs \<noteq> Panicked"
  by (induction txs) (auto split: option.splits)

lemma ValidateProposedBlock_not_Panicked:
  "\<not> IsEmpty block \<Longrightarrow> ValidateProposedBlock env chain block \<noteq> Panicked"
  by (auto simp: ValidateProposedBlock_def IsEmpty_def Let_def validateTxs_not_Panicked
      split: option.splits Header.splits sum.splits prod.splits)

lemma withState_frame [simp]:
  "Head (withState chain s) = Head chain" "repo (withState chain s) = repo chain"
  "chainState (withState chain s) = s"
  by (simp_all add: withState_def chainState_def)

lemma insertBlock_frame [simp]:
  "Head (insertBlock env chain block) = block"
  "appState (insertBlock env chain block) = appState chain"
  by (simp_all add: insertBlock_def SetCurrentHead_def Let_def)

lemma AddBlock_of_apply_Err:
  assumes "\<not> IsEmpty block"
    and "applyBlock env chain (chainState chain) block False = (Err e, s', chain')"
  shows "\<exists>e' c. AddBlock env chain block = (Err e', c) \<and> Head c = Head chain \<and> repo c = repo chain"
proof -
  note fr = applyBlock_frame [OF assms(2)]
  show ?thesis
  proof (cases "validateBlockParentHash env chain block")
    case (Some e0)
    then show ?thesis by (simp add: AddBlock_def)
  next
    case None
    show ?thesis
    proof (cases "ValidateProposedBlock env chain block")
      case (Ok u)
      with None assms fr show ?thesis by (simp add: AddBlock_def)
    next
      case (Err e1)
      with None assms show ?thesis by (simp add: AddBlock_def)
    next
      case Panicked
      with ValidateProposedBlock_not_Panicked [OF assms(1)] show ?thesis by simp
    qed
  qed
qed

lemma AddBlock_Err_frame:
  assumes "AddBlock env chain block = (Err e, chain')"
  shows "Head chain' = Head chain \<and> repo chain' = repo chain"
proof -
  obtain r s c where a: "applyBlock env chain (chainState chain) block False = (r, s, c)"
    by (cases "applyBlock env chain (chainState chain) block False")
  note fr = applyBlock_frame [OF a]
  from assms a fr show ?thesis
    by (cases r)
       (auto simp: AddBlock_def Let_def split: option.splits if_splits result.splits)
qed

lemma AddBlock_clean:
  assumes "AddBlock env chain block = (r, chain')" and "r \<noteq> Panicked"
    and "clean env (chainState chain)"
  shows "clean env (chainState chain')"
proof -
  obtain r1 s c where a: "applyBlock env chain (chainState chain) block False = (r1, s, c)"
    by (cases "applyBlock env chain (chainState chain) block False")
  have cl: "r1 \<noteq> Panicked \<Longrightarrow> clean env s" using applyBlock_clean [OF a] .
  have ins: "\<And>c b. chainState (insertBlock env c b) = chainState c"
    by (simp add: chainState_def)
  from assms a cl show ?thesis
    by (cases r1)
       (auto simp: AddBlock_def Let_def ins split: option.splits if_splits result.splits)
qed

lemma applyAndValidateBlockState_speculative:
  assumes "applyAndValidateBlockState env s block True = (Ok (), s4)"
  shows "applyAndValidateBlockState env s block False
     = (if StateDB_Root s4 \<noteq> Block_Root block then Err WrongStateRoot else Ok (), s4)"
proof -
  obtain r1 s1 where p: "processTxs_loop env s (Transactions block) 0 = (r1, s1)"
    by (cases "processTxs_loop env s (Transactions block) 0")
  from assms p show ?thesis
    by (cases r1; cases "Header block")
       (auto simp: applyAndValidateBlockState_def processTxs_def Let_def)
qed

lemma applyAndValidateBlockState_Ok:
  assumes "applyAndValidateBlockState env s block proposing = (Ok u, s')"
  shows "\<exists>h totalFee s1. Header block = ProposedHeader h
     \<and> processTxs env s block proposing = (Ok totalFee, s1)
     \<and> s' = Precommit env (SetBalance (SetBalance s1 (Coinbase h) BlockReward) (Coinbase h) (totalFee div 2))"
proof -
  obtain r1 s1 where p: "processTxs env s block proposing = (r1, s1)"
    by (cases "processTxs env s block proposing")
  from assms p show ?thesis
    by (cases r1; cases "Header block")
       (auto simp: applyAndValidateBlockState_def Let_def split: if_splits)
qed

lemma ValidateProposedBlock_checks_proof_error:
  assumes "ProofToHash env verifier (GetSeedData env chain block) (SeedProof block) = (h, Some e)"
    and "Header block = ProposedHeader hdr"
    and "UnmarshalPubkey env (ProposerPubKey hdr) = Inr pk"
    and "NewVRFVerifier env pk = Inr verifier"
  shows "\<exists>e'. ValidateProposedBlock env chain block = Err e'"
  using assms
  by (auto simp: ValidateProposedBlock_def Let_def split: option.splits)

lemma validateBlockParentHash_None:
  assumes "validateBlockParentHash env chain block = None"
  shows "Block_Height (Head chain) + 1 = Block_Height block
     \<and> BlockHash env (Head chain) = Header_ParentHash (Header block)"
  using assms by (auto simp: validateBlockParentHash_def Let_def split: if_splits)

lemma GenerateEmptyBlock_header:
  "Header (GenerateEmptyBlock env chain) = EmptyBlockHeader
      \<lparr>EmptyParentHash = BlockHash env (Head chain),
       EmptyHeight = Block_Height (Head chain) + 1,
       EmptyRoot = StateDB_Root (chainState chain)\<rparr>"
  by (simp add: GenerateEmptyBlock_def Let_def)

lemma AddBlock_Ok:
  assumes "AddBlock env chain block = (Ok u, chain')"
  shows "validateBlockParentHash env chain block = None
     \<and> (\<exists>s c. applyBlock env chain (chainState chain) block False = (Ok (), s, c)
           \<and> chain' = insertBlock env (withState c s)
                (if IsEmpty block then GenerateEmptyBlock env (withState c s) else block))"
proof -
  obtain r s c where a: "applyBlock env chain (chainState chain) block False = (r, s, c)"
    by (cases "applyBlock env chain (chainState chain) block False")
  from assms a show ?thesis
    by (cases r)
       (auto simp: AddBlock_def Let_def split: option.splits if_splits result.splits)
qed

text \<open>An empty block this chain generated itself, added while the chain's handle is clean,
  becomes the head as it is.\<close>

lemma validateBlockParentHash_own_empty:
  "validateBlockParentHash env chain (GenerateEmptyBlock env chain) = None"
  by (simp add: validateBlockParentHash_def Let_def Block_Height_def Header_ParentHash_def
        GenerateEmptyBlock_header)

lemma StateDB_Root_Commit_clean:
  "clean env s \<Longrightarrow> StateDB_Root (Commit env s) = StateDB_Root s"
  by (simp add: clean_def StateDB_Root_def Commit_def Precommit_def)

lemma AddBlock_own_empty_block:
  assumes "clean env (chainState chain)"
  shows "\<exists>chain'. AddBlock env chain (GenerateEmptyBlock env chain) = (Ok (), chain')
     \<and> Head chain' = GenerateEmptyBlock env chain"
proof -
  let ?b = "GenerateEmptyBlock env chain"
  have e: "IsEmpty ?b" by (simp add: IsEmpty_def GenerateEmptyBlock_header)
  obtain c where a: "applyBlock env chain (chainState chain) ?b False
      = (Ok (), Commit env (chainState chain), c)" and h: "Head c = Head chain"
    by (simp add: applyBlock_def e)
  let ?c = "withState c (Commit env (chainState chain))"
  have "GenerateEmptyBlock env ?c = ?b"
    using h StateDB_Root_Commit_clean [OF assms]
    by (simp add: GenerateEmptyBlock_def Let_def GetSeedData_def)
  then show ?thesis
    by (simp add: AddBlock_def validateBlockParentHash_own_empty e a)
qed

section \<open>Evaluation of the concrete instances\<close>

lemma example_Sender [simp]:
  "Sender exampleEnv exampleSend = 1" "Sender exampleEnv selfSend = 1"
  "Sender exampleEnv exampleApproval = 1" "Sender exampleEnv replayedSend = 1"
  "Sender exampleEnv gapSend = 1"
  by (simp_all add: exampleEnv_def exampleSend_def selfSend_def exampleApproval_def
        replayedSend_def gapSend_def)

lemma example_processTx_approval:
  "processTx exampleEnv exampleState exampleApproval 0
     = (Ok 0, SetNonce (Approve exampleState 1) 1 2)"
  by (simp add: processTx_def applyTxType_def Let_def GetNonce_def exampleState_def
        exampleAccounts_def exampleApproval_def exampleEnv_def)

lemma example_processTx_send:
  "processTx exampleEnv exampleState exampleSend 0
     = (Ok 0, SetNonce (AddBalance (SubBalance (SubBalance exampleState 1 10) 1 0) 2 10) 1 2)"
  by (simp add: processTx_def applyTxType_def Let_def GetNonce_def GetBalance_def getTxFee_def
        exampleState_def exampleAccounts_def exampleSend_def exampleEnv_def)

lemma example_processTx_selfSend:
  "processTx exampleEnv exampleState selfSend 0
     = (Ok 0, SetNonce (AddBalance (SubBalance (SubBalance exampleState 1 10) 1 0) 1 10) 1 2)"
  by (simp add: processTx_def applyTxType_def Let_def GetNonce_def GetBalance_def getTxFee_def
        exampleState_def exampleAccounts_def selfSend_def exampleEnv_def)

lemma example_not_empty: "\<not> IsEmpty (exampleBlock txs r)"
  by (simp add: IsEmpty_def exampleBlock_def)

lemma example_chainState: "chainState exampleChain = exampleState"
  by (simp add: chainState_def exampleChain_def)

lemma example_clean: "clean exampleEnv exampleState"
  by (simp add: clean_def exampleState_def exampleEnv_def exampleAccounts_def)

lemma example_Transactions: "Transactions (exampleBlock txs r) = txs"
  by (simp add: exampleBlock_def)

lemma example_loop_approval:
  "processTxs_loop exampleEnv exampleState [exampleApproval] 0
     = (Ok 0, SetNonce (Approve exampleState 1) 1 2)"
  by (simp add: example_processTx_approval)

lemma example_nonces:
  "GetNonce exampleState 1 = 0" "GetNonce (SetNonce (Approve exampleState 1) 1 2) 1 = 2"
  "AccountNonce gapSend = 5" "AccountNonce replayedSend = 0"
  by (simp_all add: GetNonce_def SetNonce_def exampleState_def exampleAccounts_def gapSend_def
        replayedSend_def)

lemma example_replay_send:
  "applyAndValidateBlockState exampleEnv exampleState (exampleBlock [exampleSend] r) True
     = (Ok (), Precommit exampleEnv (SetBalance (SetBalance
          (SetNonce (AddBalance (SubBalance (SubBalance exampleState 1 10) 1 0) 2 10) 1 2)
          3 BlockReward) 3 0))"
  by (simp add: applyAndValidateBlockState_def processTxs_def example_Transactions
        example_processTx_send Let_def)
     (simp add: exampleBlock_def)

lemma example_replay_send_root:
  "StateDB_Root (Precommit exampleEnv (SetBalance (SetBalance
          (SetNonce (AddBalance (SubBalance (SubBalance exampleState 1 10) 1 0) 2 10) 1 2)
          3 BlockReward) 3 0)) = 2010000"
  by (simp add: StateDB_Root_def Precommit_def store_defs exampleEnv_def exampleState_def
        exampleAccounts_def)

lemma example_Block_Root: "Block_Root (exampleBlock txs r) = r"
  by (simp add: Block_Root_def exampleBlock_def)

lemma example_head_facts:
  "Head exampleChain = exampleHead" "Block_Height exampleHead = 1"
  "BlockHash exampleEnv exampleHead = 10001" "vrfSigner exampleChain = [1]"
  by (simp_all add: exampleChain_def exampleHead_def exampleEnv_def Block_Height_def
        Block_Root_def)

lemma example_seed_data_length:
  "length (GetSeedData exampleEnv exampleChain b) = 65"
  by (simp add: GetSeedData_def Let_def length_Hash_Bytes exampleEnv_def)

lemma example_empty_seed:
  "BlockSeed (GenerateEmptyBlock exampleEnv exampleChain) = 65"
proof -
  have "BlockSeed (GenerateEmptyBlock exampleEnv exampleChain)
      = Keccak256Hash exampleEnv (GetSeedData exampleEnv exampleChain
          ((GenerateEmptyBlock exampleEnv exampleChain)\<lparr>BlockSeed := 0\<rparr>))"
    by (simp add: GenerateEmptyBlock_def Let_def)
  also have "\<dots> = of_nat (length (GetSeedData exampleEnv exampleChain
          ((GenerateEmptyBlock exampleEnv exampleChain)\<lparr>BlockSeed := 0\<rparr>)))"
    by (simp add: exampleEnv_def)
  finally show ?thesis by (simp add: example_seed_data_length)
qed

lemma example_NewForCheck: "NewForCheck exampleEnv exampleState = exampleState"
  by (simp add: NewForCheck_def exampleState_def exampleEnv_def exampleAccounts_def)

lemma example_applyBlock_speculative:
  "applyBlock exampleEnv exampleChain exampleState (exampleBlock [exampleSend] r) True
     = (Ok (), Precommit exampleEnv (SetBalance (SetBalance
          (SetNonce (AddBalance (SubBalance (SubBalance exampleState 1 10) 1 0) 2 10) 1 2)
          3 BlockReward) 3 0), exampleChain)"
  by (simp add: applyBlock_def example_not_empty example_replay_send)

lemma example_ProposeBlock:
  "ProposeBlock exampleEnv exampleChain [exampleSend] 99 = Ok (exampleBlock [exampleSend] 2010000)"
proof -
  have hdr: "\<lparr>Header = ProposedHeader
            \<lparr>ParentHash = BlockHash exampleEnv (Head exampleChain),
             Height = Block_Height (Head exampleChain) + 1, Time = 99,
             ProposerPubKey = FromECDSAPub exampleEnv (pubKey exampleChain),
             TxHash = DeriveSha exampleEnv [exampleSend],
             Coinbase = coinBaseAddress exampleChain, Root = 0\<rparr>,
          Transactions = [exampleSend], BlockSeed = 0, SeedProof = []\<rparr>
        = (exampleBlock [exampleSend] 0)\<lparr>BlockSeed := 0, SeedProof := []\<rparr>"
    by (simp add: example_head_facts)
       (simp add: exampleBlock_def exampleEnv_def exampleChain_def)
  have ap: "applyBlock exampleEnv exampleChain exampleState
              ((exampleBlock [exampleSend] 0)\<lparr>BlockSeed := 0, SeedProof := []\<rparr>) True
     = (Ok (), Precommit exampleEnv (SetBalance (SetBalance
          (SetNonce (AddBalance (SubBalance (SubBalance exampleState 1 10) 1 0) 2 10) 1 2)
          3 BlockReward) 3 0), exampleChain)"
    by (simp add: applyBlock_def applyAndValidateBlockState_def processTxs_def IsEmpty_def
          exampleBlock_def example_processTx_send Let_def)
  have ev: "Evaluate exampleEnv [1] m = (1 + of_nat (length m), [1])" for m
    by (simp add: exampleEnv_def)
  show ?thesis
    unfolding ProposeBlock_def Let_def hdr example_chainState example_NewForCheck ap
    by (simp add: example_replay_send_root example_head_facts ev example_seed_data_length)
       (simp add: exampleBlock_def exampleEnv_def exampleChain_def)
qed

lemma example_validateBlockParentHash:
  "validateBlockParentHash exampleEnv exampleChain (exampleBlock txs r) = None"
  "validateBlockParentHash exampleEnv exampleChain foreignEmptyBlock = None"
  by (simp_all add: validateBlockParentHash_def example_head_facts Let_def)
     (simp_all add: Block_Height_def Header_ParentHash_def exampleBlock_def foreignEmptyBlock_def)

lemma example_ValidateProposedBlock:
  "ValidateProposedBlock exampleEnv exampleChain (exampleBlock [exampleSend] r) = Ok ()"
proof -
  have pth: "ProofToHash exampleEnv [1] m [1] = (1 + of_nat (length m), None)" for m
    by (simp add: exampleEnv_def)
  have h: "Header (exampleBlock [exampleSend] r) = ProposedHeader
      \<lparr>ParentHash = 10001, Height = 2, Time = 99, ProposerPubKey = [1], TxHash = 1, Coinbase = 3, Root = r\<rparr>"
    "SeedProof (exampleBlock [exampleSend] r) = [1]" "Block_Seed (exampleBlock [exampleSend] r) = 66"
    by (simp_all add: exampleBlock_def Block_Seed_def)
  have c: "UnmarshalPubkey exampleEnv [1] = Inr [1]" "NewVRFVerifier exampleEnv [1] = Inr [1]"
    "DeriveSha exampleEnv [exampleSend] = 1" "ValidateTx exampleEnv st tx = None" for st tx
    by (simp_all add: exampleEnv_def)
  show ?thesis
    by (simp add: ValidateProposedBlock_def example_validateBlockParentHash Let_def h c pth
          example_seed_data_length example_Transactions Seed_len_def)
qed

lemma example_applyBlock_wrong_root:
  "applyBlock exampleEnv exampleChain exampleState (exampleBlock [exampleSend] 0) False
     = (Err WrongStateRoot, Reset exampleEnv exampleState, exampleChain)"
proof -
  have "applyAndValidateBlockState exampleEnv exampleState (exampleBlock [exampleSend] 0) False
      = (Err WrongStateRoot, Precommit exampleEnv (SetBalance (SetBalance
          (SetNonce (AddBalance (SubBalance (SubBalance exampleState 1 10) 1 0) 2 10) 1 2)
          3 BlockReward) 3 0))"
    using applyAndValidateBlockState_speculative [OF example_replay_send, of 0]
    by (simp add: example_replay_send_root example_Block_Root)
  with example_not_empty show ?thesis by (rule applyBlock_of_Err)
qed

lemma example_AddBlock_wrong_root:
  "AddBlock exampleEnv exampleChain (exampleBlock [exampleSend] 0)
     = (Err WrongStateRoot, withState exampleChain (Reset exampleEnv exampleState))"
  by (simp add: AddBlock_def example_validateBlockParentHash example_not_empty
        example_ValidateProposedBlock example_chainState example_applyBlock_wrong_root)

lemma example_AddBlock_accepts:
  "fst (AddBlock exampleEnv exampleChain (exampleBlock [exampleSend] 2010000)) = Ok ()"
proof -
  have "applyAndValidateBlockState exampleEnv exampleState (exampleBlock [exampleSend] 2010000) False
      = (Ok (), Precommit exampleEnv (SetBalance (SetBalance
          (SetNonce (AddBalance (SubBalance (SubBalance exampleState 1 10) 1 0) 2 10) 1 2)
          3 BlockReward) 3 0))"
    using applyAndValidateBlockState_speculative [OF example_replay_send, of 2010000]
    by (simp add: example_replay_send_root example_Block_Root)
  then have "fst (applyBlock exampleEnv exampleChain exampleState (exampleBlock [exampleSend] 2010000) False)
      = Ok ()"
    by (simp add: applyBlock_def example_not_empty)
  then obtain s c
    where "applyBlock exampleEnv exampleChain exampleState (exampleBlock [exampleSend] 2010000) False
      = (Ok (), s, c)"
    by (cases "applyBlock exampleEnv exampleChain exampleState (exampleBlock [exampleSend] 2010000) False")
       simp
  then show ?thesis
    by (simp add: AddBlock_def example_validateBlockParentHash example_not_empty
          example_ValidateProposedBlock example_chainState)
qed

lemma example_AddBlock_empty:
  "AddBlock exampleEnv exampleChain foreignEmptyBlock
     = (Ok (), insertBlock exampleEnv
          (withState (exampleChain\<lparr>txpool := [foreignEmptyBlock],
              appState := (appState exampleChain)\<lparr>ValidatorsCache := [[]]\<rparr>\<rparr>)
            (Commit exampleEnv exampleState))
          (GenerateEmptyBlock exampleEnv
             (withState (exampleChain\<lparr>txpool := [foreignEmptyBlock],
                 appState := (appState exampleChain)\<lparr>ValidatorsCache := [[]]\<rparr>\<rparr>)
               (Commit exampleEnv exampleState))))"
proof -
  have e: "IsEmpty foreignEmptyBlock" "Transactions foreignEmptyBlock = []"
    by (simp_all add: IsEmpty_def foreignEmptyBlock_def)
  have t: "txpool exampleChain = []" "ValidatorsCache (appState exampleChain) = []"
    by (simp_all add: exampleChain_def)
  show ?thesis
    by (simp add: AddBlock_def example_validateBlockParentHash e applyBlock_def
          example_chainState t Let_def)
qed

lemma example_after_approval:
  "GetNonce (SetNonce (Approve exampleState 1) 1 2) 1 = 2"
  "GetBalance (SetNonce (Approve exampleState 1) 1 2) 1 = 10"
  "SetNonce (Approve exampleState 1) 1 2 \<noteq> exampleState"
proof -
  show "GetNonce (SetNonce (Approve exampleState 1) 1 2) 1 = 2"
    by (simp add: GetNonce_SetNonce)
  show "GetBalance (SetNonce (Approve exampleState 1) 1 2) 1 = 10"
    by (simp add: store_defs exampleState_def exampleAccounts_def)
  have "GetNonce exampleState 1 = 0" by (simp add: example_nonces)
  then show "SetNonce (Approve exampleState 1) 1 2 \<noteq> exampleState"
    using GetNonce_SetNonce [of "Approve exampleState 1" 1 2] by auto
qed

lemma example_processTx_overdrawn:
  "processTx exampleEnv (SetNonce (Approve exampleState 1) 1 2) overdrawnSend 0
     = (Err NotEnoughFunds, SetNonce (Approve exampleState 1) 1 2)"
proof -
  have s: "Sender exampleEnv overdrawnSend = 1"
    by (simp add: exampleEnv_def overdrawnSend_def)
  have f: "AccountNonce overdrawnSend = 3" "Type overdrawnSend = SendTx" "Amount overdrawnSend = 11"
    by (simp_all add: overdrawnSend_def)
  show ?thesis
    by (simp add: processTx_def applyTxType_def Let_def s f example_after_approval getTxFee_def)
qed

lemma example_processTxs_gap:
  "processTxs exampleEnv exampleState (exampleBlock [exampleApproval, gapSend] r) p
     = (Err InvalidTxNonce, SetNonce (Approve exampleState 1) 1 2)"
proof -
  have "AccountNonce gapSend \<noteq> GetNonce (SetNonce (Approve exampleState 1) 1 2) (Sender exampleEnv gapSend) + 1"
    by (simp add: example_nonces)
  from processTx_bad_nonce [OF this] show ?thesis
    by (simp add: processTxs_def example_Transactions example_processTx_approval)
qed

lemma example_processTxs_overdrawn:
  "processTxs exampleEnv exampleState (exampleBlock [exampleApproval, overdrawnSend] r) p
     = (Err NotEnoughFunds, SetNonce (Approve exampleState 1) 1 2)"
  by (simp add: processTxs_def example_Transactions example_processTx_approval
        example_processTx_overdrawn)

lemma example_applyBlock_gap:
  "applyBlock exampleEnv exampleChain exampleState (exampleBlock [exampleApproval, gapSend] r) p
     = (Err InvalidTxNonce, Reset exampleEnv exampleState, exampleChain)"
proof -
  have "applyAndValidateBlockState exampleEnv exampleState (exampleBlock [exampleApproval, gapSend] r) p
      = (Err InvalidTxNonce, SetNonce (Approve exampleState 1) 1 2)"
    by (simp add: applyAndValidateBlockState_def example_processTxs_gap)
  with example_not_empty show ?thesis by (rule applyBlock_of_Err)
qed

lemma example_applyBlock_overdrawn:
  "applyBlock exampleEnv exampleChain exampleState (exampleBlock [exampleApproval, overdrawnSend] r) p
     = (Err NotEnoughFunds, Reset exampleEnv exampleState, exampleChain)"
proof -
  have "applyAndValidateBlockState exampleEnv exampleState (exampleBlock [exampleApproval, overdrawnSend] r) p
      = (Err NotEnoughFunds, SetNonce (Approve exampleState 1) 1 2)"
    by (simp add: applyAndValidateBlockState_def example_processTxs_overdrawn)
  with example_not_empty show ?thesis by (rule applyBlock_of_Err)
qed

lemma example_wrong_root_state:
  "applyAndValidateBlockState exampleEnv exampleState (exampleBlock [exampleSend] 0) False
      = (Err WrongStateRoot, Precommit exampleEnv (SetBalance (SetBalance
          (SetNonce (AddBalance (SubBalance (SubBalance exampleState 1 10) 1 0) 2 10) 1 2)
          3 BlockReward) 3 0))"
  "GetBalance (Precommit exampleEnv (SetBalance (SetBalance
          (SetNonce (AddBalance (SubBalance (SubBalance exampleState 1 10) 1 0) 2 10) 1 2)
          3 BlockReward) 3 0)) 2 = 10"
  "GetBalance exampleState 2 = 0"
proof -
  show "applyAndValidateBlockState exampleEnv exampleState (exampleBlock [exampleSend] 0) False
      = (Err WrongStateRoot, Precommit exampleEnv (SetBalance (SetBalance
          (SetNonce (AddBalance (SubBalance (SubBalance exampleState 1 10) 1 0) 2 10) 1 2)
          3 BlockReward) 3 0))"
    using applyAndValidateBlockState_speculative [OF example_replay_send, of 0]
    by (simp add: example_replay_send_root example_Block_Root)
qed (simp_all add: Precommit_def store_defs exampleState_def exampleAccounts_def)

lemma example_dirty:
  "GetBalance dirtyState 2 = 50" "GetBalance exampleState 2 = 0"
  "Reset exampleEnv dirtyState = exampleState"
  "processTx exampleEnv dirtyState exampleApproval 0 = (Ok 0, SetNonce (Approve dirtyState 1) 1 2)"
  "GetNonce (SetNonce (Approve dirtyState 1) 1 2) 1 = 2"
proof -
  show "GetBalance dirtyState 2 = 50" "GetBalance exampleState 2 = 0"
    by (simp_all add: dirtyState_def store_defs exampleState_def exampleAccounts_def)
  show "Reset exampleEnv dirtyState = exampleState"
    by (simp add: Reset_def dirtyState_def AddBalance_def exampleState_def exampleEnv_def
          exampleAccounts_def)
  show "processTx exampleEnv dirtyState exampleApproval 0 = (Ok 0, SetNonce (Approve dirtyState 1) 1 2)"
    by (simp add: processTx_def applyTxType_def Let_def GetNonce_def dirtyState_def AddBalance_def
          exampleState_def exampleAccounts_def exampleApproval_def exampleEnv_def)
  show "GetNonce (SetNonce (Approve dirtyState 1) 1 2) 1 = 2"
    by (simp add: GetNonce_SetNonce)
qed

section \<open>The claims\<close>

text \<open>
  Claim C1 (root binding). \<open>applyAndValidateBlockState\<close> replays the transactions of a
  proposed block on a state handle, credits the coinbase and fixes the root; run
  speculatively it does not compare that root with anything. If the replay succeeds and
  the root it fixes differs from the root the block claims, then applying the block
  non-speculatively returns the wrong-state-root error, with the handle reset and the
  chain untouched; and \<open>AddBlock\<close>, which applies the block to the chain's own handle,
  returns an error and leaves the head and the repository as they were.
\<close>

theorem wrong_root_rejected:
  assumes "\<not> IsEmpty block"
    and "applyAndValidateBlockState env s block True = (Ok (), s4)"
    and "StateDB_Root s4 \<noteq> Block_Root block"
  shows "applyBlock env chain s block False = (Err WrongStateRoot, Reset env s, chain)
     \<and> (s = chainState chain \<longrightarrow>
          (\<exists>e chain'. AddBlock env chain block = (Err e, chain')
             \<and> Head chain' = Head chain \<and> repo chain' = repo chain))"
proof -
  from applyAndValidateBlockState_speculative [OF assms(2)] assms(3)
  have "applyAndValidateBlockState env s block False = (Err WrongStateRoot, s4)" by simp
  with assms(1) have a: "applyBlock env chain s block False = (Err WrongStateRoot, Reset env s, chain)"
    by (rule applyBlock_of_Err)
  with AddBlock_of_apply_Err [OF assms(1), of env chain] show ?thesis by blast
qed

theorem wrong_root_rejected_witness:
  "StateDB_Root (snd (applyAndValidateBlockState exampleEnv exampleState (exampleBlock [exampleSend] 0) True)) = 2010000
   \<and> Block_Root (exampleBlock [exampleSend] 0) = 0
   \<and> applyBlock exampleEnv exampleChain exampleState (exampleBlock [exampleSend] 0) False
       = (Err WrongStateRoot, Reset exampleEnv exampleState, exampleChain)
   \<and> (\<exists>e chain'. AddBlock exampleEnv exampleChain (exampleBlock [exampleSend] 0) = (Err e, chain')
         \<and> Head chain' = Head exampleChain \<and> repo chain' = repo exampleChain)"
proof -
  have r: "StateDB_Root (Precommit exampleEnv (SetBalance (SetBalance
          (SetNonce (AddBalance (SubBalance (SubBalance exampleState 1 10) 1 0) 2 10) 1 2)
          3 BlockReward) 3 0)) \<noteq> Block_Root (exampleBlock [exampleSend] 0)"
    by (simp add: example_replay_send_root example_Block_Root)
  from wrong_root_rejected [OF example_not_empty example_replay_send r, of exampleChain]
  show ?thesis
    by (simp add: example_chainState example_replay_send example_replay_send_root
          example_Block_Root)
qed

text \<open>
  Claim C2 (coinbase reward). The claim: after the transactions of a proposed block the
  coinbase balance has grown by the block reward plus half of the fee total. The source
  credits the coinbase with two calls of \<^verbatim>\<open>SetBalance\<close>, first with the block reward and
  then with half of the fee total, where the transfer a few lines above uses
  \<^verbatim>\<open>AddBalance\<close>. The second call overwrites the first, and both overwrite what the
  coinbase held: whenever the transition succeeds, the coinbase balance is half of the
  fee total, and the fee total is 0 since \<open>getTxFee\<close> is constantly 0. In the instance
  the coinbase holds 7 before the credit and 0 after it, where the claim gives 12.
\<close>

theorem coinbase_balance_overwritten:
  assumes "applyAndValidateBlockState env s block proposing = (Ok (), s')"
    and "Header block = ProposedHeader h"
  shows "\<exists>totalFee s1. processTxs env s block proposing = (Ok totalFee, s1)
     \<and> totalFee = 0
     \<and> GetBalance s' (Coinbase h) = totalFee div 2"
proof -
  from applyAndValidateBlockState_Ok [OF assms(1)] assms(2) obtain totalFee s1
    where p: "processTxs env s block proposing = (Ok totalFee, s1)"
      and s': "s' = Precommit env (SetBalance (SetBalance s1 (Coinbase h) BlockReward) (Coinbase h) (totalFee div 2))"
    by auto
  from p have "totalFee = 0" by (auto simp: processTxs_def dest: processTxs_loop_fee)
  moreover from s' have "GetBalance s' (Coinbase h) = totalFee div 2"
    by (simp add: Precommit_def GetBalance_def SetBalance_def)
  ultimately show ?thesis using p by simp
qed

theorem coinbase_balance_overwritten_witness:
  "Header (exampleBlock [exampleSend] 0) = ProposedHeader
      \<lparr>ParentHash = 10001, Height = 2, Time = 99, ProposerPubKey = [1], TxHash = 1, Coinbase = 3, Root = 0\<rparr>
   \<and> fst (applyAndValidateBlockState exampleEnv exampleState (exampleBlock [exampleSend] 0) True) = Ok ()
   \<and> GetBalance exampleState 3 = 7
   \<and> GetBalance (snd (processTxs exampleEnv exampleState (exampleBlock [exampleSend] 0) True)) 3 = 7
   \<and> BlockReward = 5
   \<and> GetBalance (snd (applyAndValidateBlockState exampleEnv exampleState (exampleBlock [exampleSend] 0) True)) 3 = 0"
proof -
  have h: "Header (exampleBlock [exampleSend] 0) = ProposedHeader
      \<lparr>ParentHash = 10001, Height = 2, Time = 99, ProposerPubKey = [1], TxHash = 1, Coinbase = 3, Root = 0\<rparr>"
    by (simp add: exampleBlock_def)
  have b: "GetBalance exampleState 3 = 7"
    "GetBalance (snd (processTxs exampleEnv exampleState (exampleBlock [exampleSend] 0) True)) 3 = 7"
    by (simp_all add: processTxs_def example_Transactions example_processTx_send)
       (simp_all add: store_defs exampleState_def exampleAccounts_def)
  from coinbase_balance_overwritten [OF example_replay_send h]
  show ?thesis
    by (simp add: h b example_replay_send BlockReward_def)
qed

text \<open>
  Claim C3 (nonce advancement). The claim: every transaction that is applied leaves the
  sender's stored nonce one higher than it was. The loop body accepts a transaction only
  when \<^verbatim>\<open>tx.AccountNonce\<close> is the stored nonce plus one, and then stores
  \<^verbatim>\<open>tx.AccountNonce+1\<close>: whenever \<open>processTx\<close> returns a value, the sender's stored nonce
  is the old one plus two (in the arithmetic of the nonce's unsigned type), which is
  never the old one plus one. This holds for every transaction type.
\<close>

theorem processTx_advances_nonce_by_two:
  assumes "processTx env s tx totalFee = (Ok fee', s')"
  shows "GetNonce s' (Sender env tx) = GetNonce s (Sender env tx) + 2
     \<and> GetNonce s' (Sender env tx) \<noteq> GetNonce s (Sender env tx) + 1"
proof -
  from processTx_Ok [OF assms] obtain s1
    where n: "AccountNonce tx = GetNonce s (Sender env tx) + 1"
      and s': "s' = SetNonce s1 (Sender env tx) (AccountNonce tx + 1)" by blast
  from s' have "GetNonce s' (Sender env tx) = AccountNonce tx + 1"
    by (simp add: GetNonce_SetNonce)
  also from n have "\<dots> = GetNonce s (Sender env tx) + 1 + 1" by simp
  finally have "GetNonce s' (Sender env tx) = GetNonce s (Sender env tx) + 2" by simp
  then show ?thesis by simp
qed

theorem processTx_advances_nonce_by_two_witness:
  "processTx exampleEnv exampleState exampleApproval 0 = (Ok 0, SetNonce (Approve exampleState 1) 1 2)
   \<and> GetNonce exampleState 1 = 0
   \<and> GetNonce (SetNonce (Approve exampleState 1) 1 2) 1 = 2"
proof -
  have "GetNonce exampleState 1 = 0"
    by (simp add: GetNonce_def exampleState_def exampleAccounts_def)
  with processTx_advances_nonce_by_two [OF example_processTx_approval] example_processTx_approval
  show ?thesis by simp
qed

text \<open>
  Claim C5 (nonce rejection). Let \<open>tx\<close> be a transaction of a block such that the
  transactions before it are processed without error, and let its \<^verbatim>\<open>AccountNonce\<close> differ
  from the sender's stored nonce plus one at that point, whether it is lower or higher
  (the sum is taken in the nonce's unsigned type, as the source takes it). Then
  \<open>processTxs\<close> fails with the invalid-nonce error. For a proposed block, \<open>applyBlock\<close>
  returns that error with the handle reset, and \<open>AddBlock\<close> on the chain's own handle
  returns an error and leaves the head and the repository as they were. (The
  transactions of a block with an empty-block header are never processed.)
\<close>

theorem wrong_nonce_rejected:
  assumes "Transactions block = pre @ tx # post"
    and "processTxs_loop env s pre 0 = (Ok fee, s1)"
    and "AccountNonce tx \<noteq> GetNonce s1 (Sender env tx) + 1"
  shows "processTxs env s block proposing = (Err InvalidTxNonce, s1)
     \<and> (\<not> IsEmpty block \<longrightarrow>
          applyBlock env chain s block proposing = (Err InvalidTxNonce, Reset env s, chain)
          \<and> (s = chainState chain \<longrightarrow>
               (\<exists>e chain'. AddBlock env chain block = (Err e, chain')
                  \<and> Head chain' = Head chain \<and> repo chain' = repo chain)))"
proof -
  have p: "processTxs env s block q = (Err InvalidTxNonce, s1)" for q
    using assms by (simp add: processTxs_def processTxs_loop_append processTx_bad_nonce)
  have a: "applyAndValidateBlockState env s block q = (Err InvalidTxNonce, s1)" for q
    by (simp add: applyAndValidateBlockState_def p)
  have b: "applyBlock env chain s block q = (Err InvalidTxNonce, Reset env s, chain)"
    if "\<not> IsEmpty block" for q
    using that a by (rule applyBlock_of_Err)
  have c: "\<exists>e chain'. AddBlock env chain block = (Err e, chain')
                  \<and> Head chain' = Head chain \<and> repo chain' = repo chain"
    if "\<not> IsEmpty block" "s = chainState chain"
    using AddBlock_of_apply_Err [OF that(1)] b [OF that(1), of False] that(2) by blast
  from p b c show ?thesis by blast
qed

theorem wrong_nonce_rejected_witness:
  "processTxs exampleEnv exampleState (exampleBlock [exampleApproval, gapSend] 0) False
      = (Err InvalidTxNonce, SetNonce (Approve exampleState 1) 1 2)
   \<and> applyBlock exampleEnv exampleChain exampleState (exampleBlock [exampleApproval, gapSend] 0) False
      = (Err InvalidTxNonce, Reset exampleEnv exampleState, exampleChain)
   \<and> (\<exists>e chain'. AddBlock exampleEnv exampleChain (exampleBlock [exampleApproval, gapSend] 0) = (Err e, chain')
         \<and> Head chain' = Head exampleChain \<and> repo chain' = repo exampleChain)
   \<and> processTxs exampleEnv exampleState (exampleBlock [replayedSend] 0) False
      = (Err InvalidTxNonce, exampleState)
   \<and> (\<exists>e chain'. AddBlock exampleEnv exampleChain (exampleBlock [replayedSend] 0) = (Err e, chain')
         \<and> Head chain' = Head exampleChain \<and> repo chain' = repo exampleChain)"
proof -
  have gap: "AccountNonce gapSend \<noteq> GetNonce (SetNonce (Approve exampleState 1) 1 2) (Sender exampleEnv gapSend) + 1"
    by (simp add: example_nonces)
  have replay: "AccountNonce replayedSend \<noteq> GetNonce exampleState (Sender exampleEnv replayedSend) + 1"
    by (simp add: example_nonces)
  have t1: "Transactions (exampleBlock [exampleApproval, gapSend] 0) = [exampleApproval] @ gapSend # []"
    by (simp add: example_Transactions)
  have t2: "Transactions (exampleBlock [replayedSend] 0) = [] @ replayedSend # []"
    by (simp add: example_Transactions)
  have l2: "processTxs_loop exampleEnv exampleState [] 0 = (Ok 0, exampleState)" by simp
  note w1 = wrong_nonce_rejected [OF t1 example_loop_approval gap, of False exampleChain]
  note w2 = wrong_nonce_rejected [OF t2 l2 replay, of False exampleChain]
  from w1 w2 show ?thesis
    by (simp add: example_not_empty example_chainState)
qed

text \<open>
  Claim C6 (VRF proof rejection). The claim: a proof that does not correspond to the
  claimed output is never accepted, by \<open>ValidateProposerProof\<close> or by the seed check of
  \<open>ValidateProposedBlock\<close>. The seed check returns the error of \<^verbatim>\<open>ProofToHash\<close>
  (\<open>ValidateProposedBlock_checks_proof_error\<close>). \<open>ValidateProposerProof\<close> assigns that
  error and never reads it: it compares the hash that came with the error against the
  claimed one. When \<^verbatim>\<open>ProofToHash\<close> rejects a proof, the hash it returns beside the
  error (the zero hash, by Go's convention) is a claimed output under which the rejected
  proof is accepted. In the instance the empty proof is rejected by the verifier and
  accepted by \<open>ValidateProposerProof\<close> for the claimed hash 0.
\<close>

theorem proposer_proof_error_ignored:
  assumes "UnmarshalPubkey env pubKeyData = Inr pk"
    and "NewVRFVerifier env pk = Inr verifier"
    and "ProofToHash env verifier (getProposerData env chain) prf = (h, Some e)"
  shows "ValidateProposerProof env chain prf h pubKeyData = None"
  using assms by (simp add: ValidateProposerProof_def)

theorem proposer_proof_error_ignored_witness:
  "ProofToHash exampleEnv [1] (getProposerData exampleEnv exampleChain) []
      = (0, Some (CollaboratorError ''invalid VRF proof''))
   \<and> ValidateProposerProof exampleEnv exampleChain [] 0 [1] = None"
proof -
  have a: "UnmarshalPubkey exampleEnv [1] = Inr [1]" "NewVRFVerifier exampleEnv [1] = Inr [1]"
    "ProofToHash exampleEnv [1] (getProposerData exampleEnv exampleChain) []
      = (0, Some (CollaboratorError ''invalid VRF proof''))"
    by (simp_all add: exampleEnv_def)
  from proposer_proof_error_ignored [OF a] a(3) show ?thesis by simp
qed

text \<open>
  Claim C7 (rollback atomicity), as stated: for every block and state handle, a failed
  application leaves the handle as it was before the application began. On failure
  \<open>applyBlock\<close> calls \<open>Reset\<close>, which goes back to the contents made durable last, not to
  the contents at the start of the application. On a handle that holds a pending credit
  of 50 to address 2, a block whose first transaction is applied and whose second has a
  wrong nonce fails; the handle returned has lost the first transaction's mutations and
  the pending credit with them.
\<close>

theorem dirty_handle_counterexample:
  "processTxs exampleEnv dirtyState (exampleBlock [exampleApproval, gapSend] 0) False
      = (Err InvalidTxNonce, SetNonce (Approve dirtyState 1) 1 2)
   \<and> applyBlock exampleEnv exampleChain dirtyState (exampleBlock [exampleApproval, gapSend] 0) False
      = (Err InvalidTxNonce, exampleState, exampleChain)
   \<and> GetBalance dirtyState 2 = 50
   \<and> GetBalance exampleState 2 = 0"
proof -
  have "AccountNonce gapSend \<noteq> GetNonce (SetNonce (Approve dirtyState 1) 1 2) (Sender exampleEnv gapSend) + 1"
    by (simp add: example_dirty example_nonces)
  from processTx_bad_nonce [OF this]
  have p: "processTxs exampleEnv dirtyState (exampleBlock [exampleApproval, gapSend] 0) False
      = (Err InvalidTxNonce, SetNonce (Approve dirtyState 1) 1 2)"
    by (simp add: processTxs_def example_Transactions example_dirty)
  then have "applyAndValidateBlockState exampleEnv dirtyState (exampleBlock [exampleApproval, gapSend] 0) False
      = (Err InvalidTxNonce, SetNonce (Approve dirtyState 1) 1 2)"
    by (simp add: applyAndValidateBlockState_def)
  with example_not_empty
  have "applyBlock exampleEnv exampleChain dirtyState (exampleBlock [exampleApproval, gapSend] 0) False
      = (Err InvalidTxNonce, Reset exampleEnv dirtyState, exampleChain)"
    by (rule applyBlock_of_Err)
  with p show ?thesis by (simp add: example_dirty)
qed

text \<open>
  Claim C7, amended: if \<open>applyBlock\<close> returns an error, the handle it leaves is the reset
  of the handle it was given (every mutation that is not durable is discarded; the
  durable contents and the version are untouched) and the chain is unchanged; if the
  handle held no pending mutation when the application began, it is left exactly as it
  was. A panic (a Send transaction without recipient) is not an error return: it leaves
  the handle as mutated so far. In the instances a clean handle is mutated by an applied
  transaction before the block fails on a wrong nonce, on missing funds and on the root,
  and is returned as it was.
\<close>

theorem failed_application_resets:
  assumes "applyBlock env chain s block proposing = (Err e, s', chain')"
  shows "s' = Reset env s \<and> chain' = chain \<and> (clean env s \<longrightarrow> s' = s)"
proof -
  from applyBlock_Err [OF assms] obtain s1
    where a: "applyAndValidateBlockState env s block proposing = (Err e, s1)"
      and s': "s' = Reset env s1" and c: "chain' = chain" by blast
  from applyAndValidateBlockState_frame [OF a] have "Reset env s1 = Reset env s"
    by (intro Reset_eqI) simp_all
  with s' c show ?thesis by (simp add: Reset_clean)
qed

theorem failed_application_resets_witness:
  "clean exampleEnv exampleState
   \<and> processTxs exampleEnv exampleState (exampleBlock [exampleApproval, gapSend] 0) False
        = (Err InvalidTxNonce, SetNonce (Approve exampleState 1) 1 2)
   \<and> SetNonce (Approve exampleState 1) 1 2 \<noteq> exampleState
   \<and> applyBlock exampleEnv exampleChain exampleState (exampleBlock [exampleApproval, gapSend] 0) False
        = (Err InvalidTxNonce, exampleState, exampleChain)
   \<and> processTxs exampleEnv exampleState (exampleBlock [exampleApproval, overdrawnSend] 0) True
        = (Err NotEnoughFunds, SetNonce (Approve exampleState 1) 1 2)
   \<and> applyBlock exampleEnv exampleChain exampleState (exampleBlock [exampleApproval, overdrawnSend] 0) True
        = (Err NotEnoughFunds, exampleState, exampleChain)
   \<and> GetBalance (snd (applyAndValidateBlockState exampleEnv exampleState (exampleBlock [exampleSend] 0) False)) 2 = 10
   \<and> GetBalance exampleState 2 = 0
   \<and> applyBlock exampleEnv exampleChain exampleState (exampleBlock [exampleSend] 0) False
        = (Err WrongStateRoot, exampleState, exampleChain)"
proof -
  note r1 = failed_application_resets [OF example_applyBlock_gap [of 0 False]]
  note r2 = failed_application_resets [OF example_applyBlock_overdrawn [of 0 True]]
  note r3 = failed_application_resets [OF example_applyBlock_wrong_root]
  from r1 r2 r3 example_clean
  have "Reset exampleEnv exampleState = exampleState" by simp
  with r1 r2 r3 show ?thesis
    by (simp add: example_clean example_processTxs_gap example_processTxs_overdrawn
          example_after_approval example_applyBlock_gap example_applyBlock_overdrawn
          example_applyBlock_wrong_root example_wrong_root_state)
qed

text \<open>
  Claim C8 (insufficient-funds boundary), as stated: a Send transaction whose amount plus
  fee equals the sender's balance succeeds and leaves the sender's balance at exactly 0.
  It fails for a transfer to the sender itself: address 1 holds 10 and sends 10 to
  address 1 with the right nonce; the transaction is applied (the debit is followed by
  the credit of the same account) and the sender's balance is 10.
\<close>

theorem self_send_counterexample:
  "Type selfSend = SendTx
   \<and> Amount selfSend + getTxFee selfSend = GetBalance exampleState (Sender exampleEnv selfSend)
   \<and> fst (processTx exampleEnv exampleState selfSend 0) = Ok 0
   \<and> GetBalance (snd (processTx exampleEnv exampleState selfSend 0)) (Sender exampleEnv selfSend) = 10"
  by (simp add: example_processTx_selfSend)
     (simp add: selfSend_def getTxFee_def store_defs exampleState_def exampleAccounts_def)

text \<open>
  Claim C8, amended: for a Send transaction with the expected nonce and a recipient, if
  amount plus fee equals the sender's balance, the transaction is applied and the
  sender's balance afterwards is 0 when the recipient is another address (and the amount
  when the recipient is the sender); if amount plus fee equals the balance plus 1, the
  transaction fails with the not-enough-funds error and the state is unchanged.
\<close>

theorem send_funds_boundary:
  assumes "Type tx = SendTx"
    and "AccountNonce tx = GetNonce s (Sender env tx) + 1"
    and "To tx = Some recipient"
  shows "(Amount tx + getTxFee tx = GetBalance s (Sender env tx) \<longrightarrow>
            (\<exists>s'. processTx env s tx totalFee = (Ok (totalFee + getTxFee tx), s')
               \<and> GetBalance s' (Sender env tx) = (if recipient = Sender env tx then Amount tx else 0)))
     \<and> (Amount tx + getTxFee tx = GetBalance s (Sender env tx) + 1 \<longrightarrow>
            processTx env s tx totalFee = (Err NotEnoughFunds, s))"
  using assms
  by (auto simp: processTx_def applyTxType_def Let_def store_defs getTxFee_def)

theorem send_funds_boundary_witness:
  "(\<exists>s'. processTx exampleEnv exampleState exampleSend 0 = (Ok (0 + getTxFee exampleSend), s')
       \<and> GetBalance s' (Sender exampleEnv exampleSend) = 0)
   \<and> processTx exampleEnv exampleState (exampleSend\<lparr>Amount := 11\<rparr>) 0 = (Err NotEnoughFunds, exampleState)"
proof -
  have a: "Type exampleSend = SendTx" "To exampleSend = Some 2"
    "AccountNonce exampleSend = GetNonce exampleState (Sender exampleEnv exampleSend) + 1"
    "Amount exampleSend + getTxFee exampleSend = GetBalance exampleState (Sender exampleEnv exampleSend)"
    by (simp_all add: exampleSend_def exampleEnv_def getTxFee_def store_defs exampleState_def
          exampleAccounts_def)
  have b: "Type (exampleSend\<lparr>Amount := 11\<rparr>) = SendTx" "To (exampleSend\<lparr>Amount := 11\<rparr>) = Some 2"
    "Sender exampleEnv (exampleSend\<lparr>Amount := 11\<rparr>) = 1"
    "AccountNonce (exampleSend\<lparr>Amount := 11\<rparr>) = GetNonce exampleState 1 + 1"
    "Amount (exampleSend\<lparr>Amount := 11\<rparr>) + getTxFee (exampleSend\<lparr>Amount := 11\<rparr>)
       = GetBalance exampleState 1 + 1"
    by (simp_all add: exampleSend_def exampleEnv_def getTxFee_def store_defs exampleState_def exampleAccounts_def)
  from send_funds_boundary [of exampleSend exampleState exampleEnv 2 0] a
  have "\<exists>s'. processTx exampleEnv exampleState exampleSend 0 = (Ok (0 + getTxFee exampleSend), s')
       \<and> GetBalance s' (Sender exampleEnv exampleSend) = 0" by simp
  moreover
  from send_funds_boundary [of "exampleSend\<lparr>Amount := 11\<rparr>" exampleState exampleEnv 2 0] b
  have "processTx exampleEnv exampleState (exampleSend\<lparr>Amount := 11\<rparr>) 0 = (Err NotEnoughFunds, exampleState)"
    by simp
  ultimately show ?thesis by simp
qed

text \<open>
  Claim C9 (seed of an empty block), as stated: the seed of the block \<open>GenerateEmptyBlock\<close>
  builds is derived exactly as the seed of a proposed block over the same seed message.
  \<open>spec_EmptyBlockSeed\<close> is that derivation, the VRF output of the chain's signer over
  the seed data. \<open>GenerateEmptyBlock\<close> takes the Keccak-256 hash of the seed data
  instead: no key takes part and no proof is produced. Wherever the hash of a message is
  not the VRF output of the signer on it, the two differ; in the instance they are 65
  and 66.
\<close>

theorem empty_seed_counterexample:
  "BlockSeed (GenerateEmptyBlock exampleEnv exampleChain) = 65
   \<and> spec_EmptyBlockSeed exampleEnv exampleChain = 66"
proof -
  have "spec_EmptyBlockSeed exampleEnv exampleChain
      = 1 + of_nat (length (GetSeedData exampleEnv exampleChain
          ((GenerateEmptyBlock exampleEnv exampleChain)\<lparr>BlockSeed := 0\<rparr>)))"
    by (simp add: spec_EmptyBlockSeed_def example_head_facts) (simp add: exampleEnv_def)
  then show ?thesis by (simp add: example_empty_seed example_seed_data_length)
qed

text \<open>
  Claim C9, amended: both seeds are derived from the same seed message, which
  \<open>GetSeedData\<close> builds in the same way for every block (the seed of the head, the height
  of the block, the hash of the block, taken while the block's own seed and proof are
  still unset), but by different functions: the seed of an empty block is the Keccak-256
  hash of the message, the seed and the seed proof of a proposed block are the VRF output
  and proof of the chain's signer on it.
\<close>

theorem seed_derivations:
  "BlockSeed (GenerateEmptyBlock env chain)
      = Keccak256Hash env
          (GetSeedData env chain ((GenerateEmptyBlock env chain)\<lparr>BlockSeed := 0\<rparr>))
   \<and> (ProposeBlock env chain txs now = Ok b \<longrightarrow>
        (BlockSeed b, SeedProof b)
          = Evaluate env (vrfSigner chain)
              (GetSeedData env chain (b\<lparr>BlockSeed := 0, SeedProof := []\<rparr>)))
   \<and> GetSeedData env chain blk
      = Hash_Bytes (Block_Seed (Head chain)) @ ToBytes64 env (Block_Height blk)
          @ Hash_Bytes (BlockHash env blk)"
proof -
  have e: "BlockSeed (GenerateEmptyBlock env chain)
      = Keccak256Hash env
          (GetSeedData env chain ((GenerateEmptyBlock env chain)\<lparr>BlockSeed := 0\<rparr>))"
    by (simp add: GenerateEmptyBlock_def Let_def)
  have g: "GetSeedData env chain blk
      = Hash_Bytes (Block_Seed (Head chain)) @ ToBytes64 env (Block_Height blk)
          @ Hash_Bytes (BlockHash env blk)"
    by (simp add: GetSeedData_def Let_def)
  have p: "(BlockSeed b, SeedProof b)
          = Evaluate env (vrfSigner chain)
              (GetSeedData env chain (b\<lparr>BlockSeed := 0, SeedProof := []\<rparr>))"
    if "ProposeBlock env chain txs now = Ok b"
  proof -
    let ?hdr = "\<lparr>ParentHash = BlockHash env (Head chain),
             Height = Block_Height (Head chain) + 1, Time = now,
             ProposerPubKey = FromECDSAPub env (pubKey chain),
             TxHash = DeriveSha env txs,
             Coinbase = coinBaseAddress chain, Root = 0\<rparr>"
    let ?blk = "\<lparr>Header = ProposedHeader ?hdr, Transactions = txs, BlockSeed = 0, SeedProof = []\<rparr>"
    obtain r s c where a: "applyBlock env chain (NewForCheck env (chainState chain)) ?blk True = (r, s, c)"
      by (cases "applyBlock env chain (NewForCheck env (chainState chain)) ?blk True")
    let ?blk' = "?blk\<lparr>Header := ProposedHeader (?hdr\<lparr>Root := StateDB_Root s\<rparr>)\<rparr>"
    obtain sd pf where ev: "Evaluate env (vrfSigner chain) (GetSeedData env chain ?blk') = (sd, pf)"
      by (cases "Evaluate env (vrfSigner chain) (GetSeedData env chain ?blk')")
    from that a ev have b: "b = ?blk'\<lparr>BlockSeed := sd, SeedProof := pf\<rparr>"
      by (cases r) (simp_all add: ProposeBlock_def Let_def)
    then have "b\<lparr>BlockSeed := 0, SeedProof := []\<rparr> = ?blk'" by simp
    with ev b show ?thesis by simp
  qed
  from e g p show ?thesis by blast
qed

theorem seed_derivations_witness:
  "ProposeBlock exampleEnv exampleChain [exampleSend] 99 = Ok (exampleBlock [exampleSend] 2010000)
   \<and> (BlockSeed (exampleBlock [exampleSend] 2010000), SeedProof (exampleBlock [exampleSend] 2010000))
        = Evaluate exampleEnv (vrfSigner exampleChain)
            (GetSeedData exampleEnv exampleChain
               ((exampleBlock [exampleSend] 2010000)\<lparr>BlockSeed := 0, SeedProof := []\<rparr>))
   \<and> BlockSeed (exampleBlock [exampleSend] 2010000) = 66"
  using seed_derivations [of exampleEnv exampleChain "[exampleSend]" 99 "exampleBlock [exampleSend] 2010000"]
    example_ProposeBlock
  by (simp add: exampleBlock_def)

text \<open>
  Claim C10 (head advancement), as stated: after \<open>AddBlock\<close> accepts a block, the head is
  that block, for proposed and for empty blocks. For an empty block \<open>AddBlock\<close> does not
  insert the block it was given but the one \<open>GenerateEmptyBlock\<close> builds on this node.
  An empty block on the example head that claims the root 12345 is accepted, and the head
  afterwards is a block with the root 10.
\<close>

theorem foreign_empty_block_counterexample:
  "fst (AddBlock exampleEnv exampleChain foreignEmptyBlock) = Ok ()
   \<and> Block_Root (Head (snd (AddBlock exampleEnv exampleChain foreignEmptyBlock))) = 10
   \<and> Block_Root foreignEmptyBlock = 12345"
  by (simp add: example_AddBlock_empty Block_Root_def GenerateEmptyBlock_header)
     (simp add: StateDB_Root_def Commit_def Precommit_def exampleState_def exampleEnv_def
        exampleAccounts_def foreignEmptyBlock_def)

text \<open>
  Claim C10, amended: when \<open>AddBlock\<close> accepts a block, the chain it leaves is one
  \<open>insertBlock\<close> on a chain with the head and the repository it started with, so the head
  advances exactly once; the new head is the accepted block itself when that is a
  proposed block, and the block \<open>GenerateEmptyBlock\<close> builds after the commit when it is
  an empty block (which is the accepted block when that was generated by this chain on
  a clean handle, \<open>AddBlock_own_empty_block\<close>); in both cases the new head has the height
  and the parent hash of the accepted block. When \<open>AddBlock\<close> returns an error, the head
  and the repository are unchanged.
\<close>

theorem AddBlock_head:
  assumes "AddBlock env chain block = (r, chain')"
  shows "(r = Ok () \<longrightarrow>
           (\<exists>c. Head c = Head chain \<and> repo c = repo chain
              \<and> chain' = insertBlock env c (Head chain')
              \<and> Head chain' = (if IsEmpty block then GenerateEmptyBlock env c else block)
              \<and> Block_Height (Head chain') = Block_Height block
              \<and> Header_ParentHash (Header (Head chain')) = Header_ParentHash (Header block)))
     \<and> ((\<exists>e. r = Err e) \<longrightarrow> Head chain' = Head chain \<and> repo chain' = repo chain)"
proof -
  have ok: "\<exists>c. Head c = Head chain \<and> repo c = repo chain
              \<and> chain' = insertBlock env c (Head chain')
              \<and> Head chain' = (if IsEmpty block then GenerateEmptyBlock env c else block)
              \<and> Block_Height (Head chain') = Block_Height block
              \<and> Header_ParentHash (Header (Head chain')) = Header_ParentHash (Header block)"
    if "r = Ok ()"
  proof -
    from AddBlock_Ok [of env chain block "()" chain'] assms that obtain s c
      where v: "validateBlockParentHash env chain block = None"
        and a: "applyBlock env chain (chainState chain) block False = (Ok (), s, c)"
        and c': "chain' = insertBlock env (withState c s)
                (if IsEmpty block then GenerateEmptyBlock env (withState c s) else block)"
      by auto
    let ?c = "withState c s"
    note fr = applyBlock_frame [OF a]
    note par = validateBlockParentHash_None [OF v]
    have 1: "Head ?c = Head chain" "repo ?c = repo chain" using fr by simp_all
    have 2: "Head chain' = (if IsEmpty block then GenerateEmptyBlock env ?c else block)"
      using c' by simp
    have 3: "chain' = insertBlock env ?c (Head chain')" using c' 2 by simp
    have 4: "Block_Height (Head chain') = Block_Height block
        \<and> Header_ParentHash (Header (Head chain')) = Header_ParentHash (Header block)"
      using 2 par 1
      by (simp add: Block_Height_def Header_ParentHash_def GenerateEmptyBlock_header)
    from 1 2 3 4 show ?thesis by blast
  qed
  have err: "Head chain' = Head chain \<and> repo chain' = repo chain" if "r = Err e" for e
    using AddBlock_Err_frame [of env chain block e chain'] assms that by simp
  from ok err show ?thesis by blast
qed

theorem AddBlock_head_witness:
  "fst (AddBlock exampleEnv exampleChain (exampleBlock [exampleSend] 2010000)) = Ok ()
   \<and> Head (snd (AddBlock exampleEnv exampleChain (exampleBlock [exampleSend] 2010000)))
        = exampleBlock [exampleSend] 2010000
   \<and> fst (AddBlock exampleEnv exampleChain (exampleBlock [exampleSend] 0)) = Err WrongStateRoot
   \<and> Head (snd (AddBlock exampleEnv exampleChain (exampleBlock [exampleSend] 0))) = Head exampleChain"
proof -
  have a: "AddBlock exampleEnv exampleChain (exampleBlock [exampleSend] 2010000)
      = (Ok (), snd (AddBlock exampleEnv exampleChain (exampleBlock [exampleSend] 2010000)))"
    using example_AddBlock_accepts by (simp add: prod_eq_iff)
  from AddBlock_head [OF a] AddBlock_head [OF example_AddBlock_wrong_root]
  show ?thesis
    by (auto simp: example_AddBlock_accepts example_not_empty example_AddBlock_wrong_root)
qed

end
